theory Spec2Isabelle
  imports Main
begin

section \<open>Shared-queue playback: monitor, synchronization pass, credit-gated mutations\<close>

text \<open>
  A shallow embedding of the playback service (\<^verbatim>\<open>playback.service.ts\<close>) and of the queue
  controller (\<^verbatim>\<open>queue.controller.ts\<close>). Times and durations are milliseconds, modelled
  as \<open>int\<close>; a nullable value is an \<open>option\<close>; a thrown exception is the \<open>Inl\<close> of a sum.
  Calls to collaborators whose code is outside the embedded files (ledger, queue store,
  session store, provider client, \<^verbatim>\<open>Date\<close>) are parameters that give each call's outcome.
\<close>

subsection \<open>JavaScript values\<close>

text \<open>Truthiness of a \<^verbatim>\<open>string | null | undefined\<close>: null and the empty string are falsy.\<close>

fun truthy :: "string option \<Rightarrow> bool" where
  "truthy None = False"
| "truthy (Some s) = (s \<noteq> [])"

text \<open>\<^verbatim>\<open>a ?? b\<close> on nullable values.\<close>

fun nullish :: "'a option \<Rightarrow> 'a option \<Rightarrow> 'a option" where
  "nullish None b = b"
| "nullish (Some a) b = Some a"

text \<open>\<^verbatim>\<open>a || b\<close> on nullable strings.\<close>

definition or_else :: "string option \<Rightarrow> string option \<Rightarrow> string option" where
  "or_else a b = (if truthy a then a else b)"

text \<open>
  A thrown value: an instance of \<^verbatim>\<open>CreditError\<close> (with its \<^verbatim>\<open>status\<close> and
  \<^verbatim>\<open>message\<close>) or any other \<^verbatim>\<open>Error\<close> (with its \<^verbatim>\<open>message\<close>).
\<close>

datatype err = CreditError int string | OtherError string

fun err_message :: "err \<Rightarrow> string" where
  "err_message (CreditError st msg) = msg"
| "err_message (OtherError msg) = msg"

subsection \<open>Now-playing reports and progress\<close>

record Album =
  album_name :: string
  album_imageUrl :: "string option"

record Track =
  track_id :: string
  track_name :: string
  track_durationMs :: "int option"
  track_artists :: "string list option"
  track_album :: "Album option"

record NowPlaying =
  np_startedAt :: "string option"
  np_state :: "string option"
  np_track :: "Track option"

definition DEFAULT_POLL_INTERVAL_MS :: int where
  "DEFAULT_POLL_INTERVAL_MS = 5000"

definition MIN_POLL_INTERVAL_MS :: int where
  "MIN_POLL_INTERVAL_MS = 2000"

definition CONTENT_REQUEST_TIMEOUT_MS :: int where
  "CONTENT_REQUEST_TIMEOUT_MS = 15000"

definition Playing :: string where
  "Playing = ''PLAYING''"

text \<open>\<^verbatim>\<open>nowPlaying?.track?.durationMs ?? null\<close>\<close>

definition np_duration :: "NowPlaying option \<Rightarrow> int option" where
  "np_duration nowPlaying =
     (case nowPlaying of None \<Rightarrow> None
      | Some np \<Rightarrow> (case np_track np of None \<Rightarrow> None | Some t \<Rightarrow> track_durationMs t))"

text \<open>
  \<^verbatim>\<open>computeProgressMs\<close>. \<open>parse\<close> is \<^verbatim>\<open>Date.parse\<close> (\<open>None\<close> for \<^verbatim>\<open>NaN\<close>) and \<open>now\<close> is
  the value of \<^verbatim>\<open>Date.now()\<close> at the call.
\<close>

definition computeProgressMs ::
  "(string \<Rightarrow> int option) \<Rightarrow> int \<Rightarrow> NowPlaying option \<Rightarrow> int option" where
  "computeProgressMs parse now nowPlaying =
     (case nowPlaying of
        None \<Rightarrow> None
      | Some np \<Rightarrow>
          (case np_startedAt np of
             None \<Rightarrow> None
           | Some startedAt \<Rightarrow>
               if startedAt = [] then None
               else (case parse startedAt of
                       None \<Rightarrow> None
                     | Some startedAtMs \<Rightarrow>
                         let progress = now - startedAtMs in
                         if progress < 0 then Some 0
                         else (case np_duration nowPlaying of
                                 Some duration \<Rightarrow>
                                   if duration > 0 then Some (min progress duration)
                                   else Some progress
                               | None \<Rightarrow> Some progress))))"

text \<open>\<^verbatim>\<open>PlaybackService.derivePollDelay\<close>\<close>

definition derivePollDelay ::
  "(string \<Rightarrow> int option) \<Rightarrow> int \<Rightarrow> NowPlaying option \<Rightarrow> int" where
  "derivePollDelay parse now nowPlaying =
     (let progress = computeProgressMs parse now nowPlaying;
          duration = np_duration nowPlaying
      in case (nowPlaying, progress, duration) of
           (Some np, Some p, Some d) \<Rightarrow>
             if np_state np = Some Playing \<and> d > 0 then
               (let remaining = max 0 (d - p); bufferMs = 2500
                in max MIN_POLL_INTERVAL_MS (min DEFAULT_POLL_INTERVAL_MS (remaining + bufferMs)))
             else DEFAULT_POLL_INTERVAL_MS
         | _ \<Rightarrow> DEFAULT_POLL_INTERVAL_MS)"

text \<open>The clamp of the specification: \<open>x\<close> limited to the interval from \<open>lo\<close> to \<open>hi\<close>.\<close>

definition clamp :: "int \<Rightarrow> int \<Rightarrow> int \<Rightarrow> int" where
  "clamp x lo hi = max lo (min hi x)"

subsection \<open>Playback payload\<close>

record PlaybackTrackPayload =
  pt_id :: string
  pt_name :: string
  pt_durationMs :: "int option"
  pt_artists :: "string list"
  pt_album_name :: "string option"
  pt_album_imageUrl :: "string option"

record PlaybackPayload =
  pp_isPlaying :: bool
  pp_progressMs :: "int option"
  pp_startedAt :: "string option"
  pp_track :: "PlaybackTrackPayload option"

text \<open>\<^verbatim>\<open>buildPlaybackPayload\<close>\<close>

definition buildPlaybackPayload ::
  "(string \<Rightarrow> int option) \<Rightarrow> int \<Rightarrow> NowPlaying option \<Rightarrow> PlaybackPayload option" where
  "buildPlaybackPayload parse now nowPlaying =
     (case nowPlaying of
        None \<Rightarrow> None
      | Some np \<Rightarrow>
          let progressMs = computeProgressMs parse now nowPlaying in
          (case np_track np of
             None \<Rightarrow>
               Some \<lparr>pp_isPlaying = (np_state np = Some Playing), pp_progressMs = progressMs,
                     pp_startedAt = np_startedAt np, pp_track = None\<rparr>
           | Some track \<Rightarrow>
               Some \<lparr>pp_isPlaying = (np_state np = Some Playing), pp_progressMs = progressMs,
                     pp_startedAt = np_startedAt np,
                     pp_track = Some
                       \<lparr>pt_id = track_id track, pt_name = track_name track,
                        pt_durationMs = track_durationMs track,
                        pt_artists = (case track_artists track of None \<Rightarrow> [] | Some as \<Rightarrow> as),
                        pt_album_name = map_option album_name (track_album track),
                        pt_album_imageUrl =
                          (case track_album track of None \<Rightarrow> None
                           | Some a \<Rightarrow> album_imageUrl a)\<rparr>\<rparr>))"

subsection \<open>Monitor state, timers and scheduling\<close>

text \<open>
  \<^verbatim>\<open>interface MonitorState\<close>. The field \<open>timeout\<close> holds the handle of the pending timer,
  a number that identifies one \<^verbatim>\<open>setTimeout\<close> call.
\<close>

record MonitorState =
  hostId :: string
  soundZoneId :: "string option"
  timeout :: "nat option"
  processing :: bool
  currentTrackId :: "string option"
  awaitingTrackId :: "string option"
  requestIssuedAt :: "int option"

text \<open>
  The service object: whether the socket server is set (\<open>io\<close>), the \<open>monitors\<close> map, and
  the runtime's armed timers, each a handle with the session its callback polls and its
  delay. \<open>nextHandle\<close> is the handle the next \<^verbatim>\<open>setTimeout\<close> returns.
\<close>

record PlaybackService =
  io :: bool
  monitors :: "string \<rightharpoonup> MonitorState"
  timers :: "(nat \<times> string \<times> int) list"
  nextHandle :: nat

text \<open>The two values read from \<^verbatim>\<open>config.soundtrack\<close>.\<close>

record SoundtrackConfig =
  defaultSoundZone :: "string option"
  defaultContentId :: "string option"

definition clearTimeout :: "nat \<Rightarrow> PlaybackService \<Rightarrow> PlaybackService" where
  "clearTimeout h svc = svc\<lparr>timers := filter (\<lambda>t. fst t \<noteq> h) (timers svc)\<rparr>"

text \<open>\<^verbatim>\<open>PlaybackService.schedulePoll\<close>: cancel the pending timer, arm a new one.\<close>

definition schedulePoll :: "string \<Rightarrow> int \<Rightarrow> PlaybackService \<Rightarrow> PlaybackService" where
  "schedulePoll sessionId delayMs svc =
     (case monitors svc sessionId of
        None \<Rightarrow> svc
      | Some monitor \<Rightarrow>
          let svc1 = (case timeout monitor of Some h \<Rightarrow> clearTimeout h svc | None \<Rightarrow> svc);
              h = nextHandle svc1
          in svc1\<lparr>timers := timers svc1 @ [(h, sessionId, max 0 delayMs)],
                  nextHandle := Suc h,
                  monitors := (monitors svc1)(sessionId \<mapsto> monitor\<lparr>timeout := Some h\<rparr>)\<rparr>)"

text \<open>\<^verbatim>\<open>PlaybackService.ensureMonitor\<close>\<close>

definition ensureMonitor ::
  "SoundtrackConfig \<Rightarrow> string \<Rightarrow> string \<Rightarrow> string option \<Rightarrow> PlaybackService \<Rightarrow> PlaybackService" where
  "ensureMonitor cfg sessionId host zone svc =
     (case monitors svc sessionId of
        Some existing \<Rightarrow>
          let existing' = existing\<lparr>hostId := host,
                                    soundZoneId := nullish zone (nullish (soundZoneId existing) None)\<rparr>;
              svc1 = svc\<lparr>monitors := (monitors svc)(sessionId \<mapsto> existing')\<rparr>
          in if timeout existing' = None \<and> \<not> processing existing'
             then schedulePoll sessionId 0 svc1
             else svc1
      | None \<Rightarrow>
          schedulePoll sessionId 0
            (svc\<lparr>monitors := (monitors svc)(sessionId \<mapsto>
               \<lparr>hostId = host,
                soundZoneId = nullish zone (nullish (defaultSoundZone cfg) None),
                timeout = None,
                processing = False,
                currentTrackId = None,
                awaitingTrackId = None,
                requestIssuedAt = None\<rparr>)\<rparr>))"

text \<open>\<^verbatim>\<open>PlaybackService.requestImmediateSync\<close>\<close>

definition requestImmediateSync :: "string \<Rightarrow> int \<Rightarrow> PlaybackService \<Rightarrow> PlaybackService" where
  "requestImmediateSync sessionId delayMs svc =
     (case monitors svc sessionId of
        None \<Rightarrow> svc
      | Some monitor \<Rightarrow>
          if processing monitor then svc
          else schedulePoll sessionId delayMs svc)"

text \<open>\<^verbatim>\<open>PlaybackService.updateSoundZone\<close>\<close>

definition updateSoundZone :: "string \<Rightarrow> string option \<Rightarrow> PlaybackService \<Rightarrow> PlaybackService" where
  "updateSoundZone sessionId zone svc =
     (case monitors svc sessionId of
        None \<Rightarrow> svc
      | Some monitor \<Rightarrow>
          requestImmediateSync sessionId 0
            (svc\<lparr>monitors := (monitors svc)(sessionId \<mapsto> monitor\<lparr>soundZoneId := zone\<rparr>)\<rparr>))"

text \<open>\<^verbatim>\<open>PlaybackService.stopMonitor\<close>\<close>

definition stopMonitor :: "string \<Rightarrow> PlaybackService \<Rightarrow> PlaybackService" where
  "stopMonitor sessionId svc =
     (case monitors svc sessionId of
        None \<Rightarrow> svc
      | Some monitor \<Rightarrow>
          let svc1 = (case timeout monitor of Some h \<Rightarrow> clearTimeout h svc | None \<Rightarrow> svc)
          in svc1\<lparr>monitors := (monitors svc1)(sessionId := None)\<rparr>)"

text \<open>The armed timers whose callback polls the given session.\<close>

definition timersOf :: "string \<Rightarrow> PlaybackService \<Rightarrow> (nat \<times> string \<times> int) list" where
  "timersOf sessionId svc = filter (\<lambda>t. fst (snd t) = sessionId) (timers svc)"

text \<open>
  The scheduling invariant of one session: its armed timers are exactly the one its
  monitor's \<open>timeout\<close> field names, and none when there is no monitor or no pending timer.
\<close>

definition session_timers_ok :: "string \<Rightarrow> PlaybackService \<Rightarrow> bool" where
  "session_timers_ok sessionId svc =
     (case monitors svc sessionId of
        None \<Rightarrow> timersOf sessionId svc = []
      | Some m \<Rightarrow>
          (case timeout m of
             None \<Rightarrow> timersOf sessionId svc = []
           | Some h \<Rightarrow> map fst (timersOf sessionId svc) = [h]))"

text \<open>Handles are distinct and below the next one to be handed out.\<close>

definition handles_ok :: "PlaybackService \<Rightarrow> bool" where
  "handles_ok svc =
     (distinct (map fst (timers svc)) \<and> list_all (\<lambda>t. fst t < nextHandle svc) (timers svc))"

subsection \<open>One reconciliation pass\<close>

record Guest =
  guest_id :: string
  guest_sessionId :: string
  guest_name :: string
  guest_clerkUserId :: "string option"

text \<open>
  A queue item as the embedded code reads it: \<open>item_addedBy\<close> is the display name of the
  host user who added it, \<open>item_addedByGuest\<close> the guest record when it is included.
\<close>

record QueueItem =
  item_sessionId :: string
  item_spotifyTrackId :: string
  item_addedBy :: "string option"
  item_addedByGuest :: "Guest option"
  item_addedByGuestId :: "string option"

record QueueState =
  nextUp :: "QueueItem option"
  queue :: "QueueItem list"

datatype Requester = HostRequester string | GuestRequester string | UnknownRequester

text \<open>The place of a provider assignment in the pass.\<close>

datatype Site = RetrySite | ForwardSite | FallbackSite

text \<open>What a pass does to the outside, in order.\<close>

datatype PollEvent =
    ConsoleWarn string
  | ConsoleErrorP string err
  | GetNowPlaying string
  | GetQueueWithNextP string
  | MarkTrackAsPlayed string string
  | SetSoundZoneContent Site string string
  | Play Site string
  | GetMostRecentQueueItemForTrack string string
  | BroadcastQueueUpdate string QueueState
  | BroadcastPlaybackUpdate string "PlaybackPayload option" "Requester option"

text \<open>
  The outcomes of the calls one pass makes: the provider client, the queue store, the
  broadcast functions, \<^verbatim>\<open>Date.parse\<close> and each \<^verbatim>\<open>Date.now()\<close>. An \<open>Inl\<close> or a
  \<open>Some\<close> error is a rejected promise or a throw.
\<close>

record PollEnv =
  pe_parse :: "string \<Rightarrow> int option"
  pe_getNowPlaying :: "err + NowPlaying option"
  pe_getQueueWithNext :: "err + QueueState"
  pe_markTrackAsPlayed :: "err + bool"
  pe_refreshQueue :: "err + QueueState"
  pe_now_retryCheck :: int
  pe_retry_setContent :: "err option"
  pe_retry_play :: "err option"
  pe_now_retried :: int
  pe_assign_setContent :: "err option"
  pe_assign_play :: "err option"
  pe_now_assigned :: int
  pe_getMostRecentQueueItemForTrack :: "err + QueueItem option"
  pe_now_payload :: int
  pe_broadcastQueue :: "err option"
  pe_broadcastPlayback :: "err option"
  pe_now_delay :: int

text \<open>\<^verbatim>\<open>nowPlaying?.track?.id ?? null\<close>\<close>

definition observedTrackId :: "NowPlaying option \<Rightarrow> string option" where
  "observedTrackId nowPlaying =
     (case nowPlaying of None \<Rightarrow> None
      | Some np \<Rightarrow> map_option track_id (np_track np))"

text \<open>
  \<^verbatim>\<open>await setSoundZoneContent(zone, content); await play(zone)\<close> inside a \<^verbatim>\<open>try\<close>:
  the calls made and the error caught, if any.
\<close>

definition assignContent ::
  "Site \<Rightarrow> err option \<Rightarrow> err option \<Rightarrow> string \<Rightarrow> string \<Rightarrow> err option \<times> PollEvent list" where
  "assignContent site setResult playResult zone content =
     (case setResult of
        Some e \<Rightarrow> (Some e, [SetSoundZoneContent site zone content])
      | None \<Rightarrow>
          (case playResult of
             Some e \<Rightarrow> (Some e, [SetSoundZoneContent site zone content, Play site zone])
           | None \<Rightarrow> (None, [SetSoundZoneContent site zone content, Play site zone])))"

text \<open>Assignment confirmation (the first \<^verbatim>\<open>if\<close> of the \<^verbatim>\<open>try\<close> block).\<close>

definition confirmAssignment :: "string option \<Rightarrow> MonitorState \<Rightarrow> MonitorState" where
  "confirmAssignment cur monitor =
     (if truthy (awaitingTrackId monitor) \<and> awaitingTrackId monitor = cur
      then monitor\<lparr>currentTrackId := awaitingTrackId monitor,
                   awaitingTrackId := None,
                   requestIssuedAt := None\<rparr>
      else monitor)"

text \<open>
  Transition detection. A throw leaves the monitor as it was before the step:
  \<open>currentTrackId\<close> is assigned only after the awaited calls.
\<close>

definition detectTransition ::
  "PollEnv \<Rightarrow> string \<Rightarrow> string option \<Rightarrow> QueueState \<Rightarrow> MonitorState
     \<Rightarrow> (err + MonitorState \<times> QueueState) \<times> PollEvent list" where
  "detectTransition env sessionId cur queueState monitor =
     (case currentTrackId monitor of
        None \<Rightarrow> (Inr (monitor\<lparr>currentTrackId := cur\<rparr>, queueState), [])
      | Some believed \<Rightarrow>
          if believed = [] then (Inr (monitor\<lparr>currentTrackId := cur\<rparr>, queueState), [])
          else if Some believed \<noteq> cur then
            (case pe_markTrackAsPlayed env of
               Inl e \<Rightarrow> (Inl e, [MarkTrackAsPlayed sessionId believed])
             | Inr consumed \<Rightarrow>
                 if consumed then
                   (case pe_refreshQueue env of
                      Inl e \<Rightarrow>
                        (Inl e, [MarkTrackAsPlayed sessionId believed, GetQueueWithNextP sessionId])
                    | Inr refreshed \<Rightarrow>
                        (Inr (monitor\<lparr>currentTrackId := cur\<rparr>, refreshed),
                         [MarkTrackAsPlayed sessionId believed, GetQueueWithNextP sessionId]))
                 else (Inr (monitor\<lparr>currentTrackId := cur\<rparr>, queueState),
                       [MarkTrackAsPlayed sessionId believed]))
          else (Inr (monitor, queueState), []))"

text \<open>Stuck-assignment retry.\<close>

definition shouldRetryContentRequest :: "PollEnv \<Rightarrow> string option \<Rightarrow> MonitorState \<Rightarrow> bool" where
  "shouldRetryContentRequest env cur monitor =
     (truthy (awaitingTrackId monitor)
      \<and> (\<not> truthy cur \<or> cur \<noteq> awaitingTrackId monitor)
      \<and> (case requestIssuedAt monitor of
            None \<Rightarrow> False
          | Some issuedAt \<Rightarrow> pe_now_retryCheck env - issuedAt > CONTENT_REQUEST_TIMEOUT_MS))"

definition retryAssignment ::
  "PollEnv \<Rightarrow> string \<Rightarrow> string option \<Rightarrow> MonitorState \<Rightarrow> MonitorState \<times> PollEvent list" where
  "retryAssignment env zone cur monitor =
     (case awaitingTrackId monitor of
        None \<Rightarrow> (monitor, [])
      | Some awaiting \<Rightarrow>
          if shouldRetryContentRequest env cur monitor then
            (case assignContent RetrySite (pe_retry_setContent env) (pe_retry_play env) zone awaiting of
               (None, evs) \<Rightarrow> (monitor\<lparr>requestIssuedAt := Some (pe_now_retried env)\<rparr>, evs)
             | (Some e, evs) \<Rightarrow>
                 (monitor,
                  evs @ [ConsoleErrorP ''Failed to retry Soundtrack content assignment:'' e]))
          else (monitor, []))"

text \<open>Forward assignment, else fallback content: one \<^verbatim>\<open>if ... else if\<close>.\<close>

definition assignNext ::
  "SoundtrackConfig \<Rightarrow> PollEnv \<Rightarrow> string \<Rightarrow> string option \<Rightarrow> QueueItem option \<Rightarrow> MonitorState
     \<Rightarrow> MonitorState \<times> PollEvent list" where
  "assignNext cfg env zone cur next monitor =
     (if (case next of None \<Rightarrow> False | Some item \<Rightarrow> item_spotifyTrackId item \<noteq> []) then
        (case next of
           None \<Rightarrow> (monitor, [])
         | Some item \<Rightarrow>
             let needsAssignment =
                   (cur \<noteq> Some (item_spotifyTrackId item)
                    \<and> awaitingTrackId monitor \<noteq> Some (item_spotifyTrackId item))
             in if needsAssignment then
                  (case assignContent ForwardSite (pe_assign_setContent env) (pe_assign_play env)
                          zone (item_spotifyTrackId item) of
                     (None, evs) \<Rightarrow>
                       (monitor\<lparr>awaitingTrackId := Some (item_spotifyTrackId item),
                                requestIssuedAt := Some (pe_now_assigned env)\<rparr>, evs)
                   | (Some e, evs) \<Rightarrow>
                       (monitor,
                        evs @ [ConsoleErrorP ''Failed to assign Soundtrack content for next track:'' e]))
                else (monitor, []))
      else if next = None \<and> \<not> truthy cur \<and> truthy (defaultContentId cfg) then
        (case defaultContentId cfg of
           None \<Rightarrow> (monitor, [])
         | Some content \<Rightarrow>
             let shouldFallback = (awaitingTrackId monitor \<noteq> Some content)
             in if shouldFallback then
                  (case assignContent FallbackSite (pe_assign_setContent env) (pe_assign_play env)
                          zone content of
                     (None, evs) \<Rightarrow>
                       (monitor\<lparr>awaitingTrackId := Some content,
                                requestIssuedAt := Some (pe_now_assigned env)\<rparr>, evs)
                   | (Some e, evs) \<Rightarrow>
                       (monitor,
                        evs @ [ConsoleErrorP ''Failed to resume default Soundtrack content:'' e]))
                else (monitor, []))
      else (monitor, []))"

text \<open>\<^verbatim>\<open>PlaybackService.resolveRequester\<close>\<close>

definition resolveRequester ::
  "PollEnv \<Rightarrow> string \<Rightarrow> string option \<Rightarrow> (err + Requester option) \<times> PollEvent list" where
  "resolveRequester env sessionId contentId =
     (case contentId of
        None \<Rightarrow> (Inr None, [])
      | Some content \<Rightarrow>
          if content = [] then (Inr None, [])
          else
            (case pe_getMostRecentQueueItemForTrack env of
               Inl e \<Rightarrow> (Inl e, [GetMostRecentQueueItemForTrack sessionId content])
             | Inr None \<Rightarrow> (Inr None, [GetMostRecentQueueItemForTrack sessionId content])
             | Inr (Some queueItem) \<Rightarrow>
                 (Inr (Some
                    (case item_addedBy queueItem of
                       Some displayName \<Rightarrow> HostRequester displayName
                     | None \<Rightarrow>
                         (case item_addedByGuest queueItem of
                            Some g \<Rightarrow> GuestRequester (guest_name g)
                          | None \<Rightarrow> UnknownRequester))),
                  [GetMostRecentQueueItemForTrack sessionId content])))"

text \<open>The two broadcasts at the end of the \<^verbatim>\<open>try\<close> block.\<close>

definition broadcast ::
  "PollEnv \<Rightarrow> string \<Rightarrow> QueueState \<Rightarrow> PlaybackPayload option \<Rightarrow> Requester option
     \<Rightarrow> err option \<times> PollEvent list" where
  "broadcast env sessionId queueState payload requester =
     (case pe_broadcastQueue env of
        Some e \<Rightarrow> (Some e, [BroadcastQueueUpdate sessionId queueState])
      | None \<Rightarrow>
          (case pe_broadcastPlayback env of
             Some e \<Rightarrow>
               (Some e, [BroadcastQueueUpdate sessionId queueState,
                         BroadcastPlaybackUpdate sessionId payload requester])
           | None \<Rightarrow>
               (None, [BroadcastQueueUpdate sessionId queueState,
                       BroadcastPlaybackUpdate sessionId payload requester])))"

text \<open>
  The body of the \<^verbatim>\<open>try\<close> block of \<^verbatim>\<open>pollSession\<close>: the monitor as the pass leaves it,
  the calls made, and either the error thrown or the next delay.
\<close>

definition reconcile ::
  "SoundtrackConfig \<Rightarrow> PollEnv \<Rightarrow> string \<Rightarrow> string \<Rightarrow> MonitorState
     \<Rightarrow> MonitorState \<times> PollEvent list \<times> (err + int)" where
  "reconcile cfg env sessionId zone monitor =
     (case pe_getNowPlaying env of
        Inl e \<Rightarrow> (monitor, [GetNowPlaying zone], Inl e)
      | Inr nowPlaying \<Rightarrow>
          (case pe_getQueueWithNext env of
             Inl e \<Rightarrow> (monitor, [GetNowPlaying zone, GetQueueWithNextP sessionId], Inl e)
           | Inr queueState0 \<Rightarrow>
               let cur = observedTrackId nowPlaying;
                   m1 = confirmAssignment cur monitor;
                   evs1 = [GetNowPlaying zone, GetQueueWithNextP sessionId]
               in (case detectTransition env sessionId cur queueState0 m1 of
                     (Inl e, evs2) \<Rightarrow> (m1, evs1 @ evs2, Inl e)
                   | (Inr (m2, queueState), evs2) \<Rightarrow>
                       (case retryAssignment env zone cur m2 of
                          (m3, evs3) \<Rightarrow>
                            (case assignNext cfg env zone cur (nextUp queueState) m3 of
                               (m4, evs4) \<Rightarrow>
                                 (case resolveRequester env sessionId cur of
                                    (Inl e, evs5) \<Rightarrow>
                                      (m4, evs1 @ evs2 @ evs3 @ evs4 @ evs5, Inl e)
                                  | (Inr requester, evs5) \<Rightarrow>
                                      (case broadcast env sessionId queueState
                                              (buildPlaybackPayload (pe_parse env)
                                                 (pe_now_payload env) nowPlaying)
                                              requester of
                                         (Some e, evs6) \<Rightarrow>
                                           (m4, evs1 @ evs2 @ evs3 @ evs4 @ evs5 @ evs6, Inl e)
                                       | (None, evs6) \<Rightarrow>
                                           (m4, evs1 @ evs2 @ evs3 @ evs4 @ evs5 @ evs6,
                                            Inr (derivePollDelay (pe_parse env)
                                                   (pe_now_delay env) nowPlaying)))))))))"

text \<open>\<^verbatim>\<open>finally { monitor.processing = false }\<close>\<close>

definition finishPass :: "string \<Rightarrow> PlaybackService \<Rightarrow> PlaybackService" where
  "finishPass sessionId svc =
     svc\<lparr>monitors := (monitors svc)(sessionId :=
            map_option (\<lambda>m. m\<lparr>processing := False\<rparr>) (monitors svc sessionId))\<rparr>"

text \<open>
  \<^verbatim>\<open>PlaybackService.pollSession\<close>, run without interleaving: no other handler touches the
  service between the pass's awaits.
\<close>

definition pollSession ::
  "SoundtrackConfig \<Rightarrow> PollEnv \<Rightarrow> string \<Rightarrow> PlaybackService \<Rightarrow> PlaybackService \<times> PollEvent list" where
  "pollSession cfg env sessionId svc =
     (case monitors svc sessionId of
        None \<Rightarrow> (svc, [])
      | Some monitor \<Rightarrow>
          if processing monitor then (svc, [])
          else if \<not> io svc then (svc, [])
          else
            (case soundZoneId monitor of
               None \<Rightarrow>
                 (schedulePoll sessionId DEFAULT_POLL_INTERVAL_MS svc,
                  [ConsoleWarn ''No Soundtrack zone configured. Playback monitoring paused.''])
             | Some zone \<Rightarrow>
                 if zone = [] then
                   (schedulePoll sessionId DEFAULT_POLL_INTERVAL_MS svc,
                    [ConsoleWarn ''No Soundtrack zone configured. Playback monitoring paused.''])
                 else
                   (case reconcile cfg env sessionId zone (monitor\<lparr>processing := True\<rparr>) of
                      (monitor', evs, outcome) \<Rightarrow>
                        let svc1 = svc\<lparr>monitors := (monitors svc)(sessionId \<mapsto> monitor')\<rparr>
                        in (case outcome of
                              Inr nextDelay \<Rightarrow>
                                (finishPass sessionId (schedulePoll sessionId nextDelay svc1), evs)
                            | Inl e \<Rightarrow>
                                (finishPass sessionId
                                   (schedulePoll sessionId DEFAULT_POLL_INTERVAL_MS svc1),
                                 evs @ [ConsoleErrorP ''Playback sync error for session'' e])))))"

text \<open>
  A timer fires: the runtime drops it, the callback clears the monitor's \<open>timeout\<close> field
  and runs the pass. A handle that is not armed does nothing.
\<close>

definition fireTimer ::
  "SoundtrackConfig \<Rightarrow> PollEnv \<Rightarrow> nat \<Rightarrow> PlaybackService \<Rightarrow> PlaybackService \<times> PollEvent list" where
  "fireTimer cfg env h svc =
     (case filter (\<lambda>t. fst t = h) (timers svc) of
        [] \<Rightarrow> (svc, [])
      | t # _ \<Rightarrow>
          let sessionId = fst (snd t);
              svc1 = clearTimeout h svc;
              svc2 = svc1\<lparr>monitors := (monitors svc1)(sessionId :=
                       map_option (\<lambda>m. m\<lparr>timeout := None\<rparr>) (monitors svc1 sessionId))\<rparr>
          in pollSession cfg env sessionId svc2)"

subsection \<open>Queue controller: requests, collaborators, effects\<close>

record Session =
  session_isActive :: bool
  session_hostId :: string
  session_soundtrackZoneId :: "string option"
  session_allowExplicit :: "bool option"

record QueueItemWithSession = QueueItem +
  item_session :: Session

text \<open>
  What the handlers read of the request: \<^verbatim>\<open>req.session.userId\<close>, the guest id stored under
  \<^verbatim>\<open>req.session.guestSessions[sessionId]\<close>, \<^verbatim>\<open>req.auth?.userId\<close>, and whether
  \<^verbatim>\<open>req.app.get('io')\<close> is set.
\<close>

record Request =
  req_userId :: "string option"
  req_guestSessions :: "string \<rightharpoonup> string"
  req_authUserId :: "string option"
  req_hasIo :: bool

text \<open>The \<^verbatim>\<open>content\<close> object of an add request's body.\<close>

record Content =
  content_id :: "string option"
  content_name :: "string option"
  content_artists :: "string list option"
  content_album :: "string option"
  content_imageUrl :: "string option"
  content_durationMs :: "int option"
  content_explicit :: "bool option"

datatype Actor = UserActor string | GuestActor string

datatype Role = RoleHost | RoleGuest

record Context =
  ctx_session :: Session
  ctx_actor :: Actor
  ctx_role :: Role
  ctx_soundZoneId :: "string option"

text \<open>
  The two costs imported from the credit service, whose file is not among the embedded
  ones: parameters of the handlers.
\<close>

record CreditCosts =
  GUEST_TRACK_COST :: int
  VOTE_REACTION_COST :: int

text \<open>
  Modelled from the spec: the queue store's vote operation, whose code is not among the
  embedded files. It decides the action, invokes \<^verbatim>\<open>beforeChange\<close> with that intent before
  committing, and a failure of the callback aborts the commit and is the failure of the
  vote. \<open>Decide intent r\<close>: the store decides \<open>intent\<close>, calls back, and if the callback
  returns, ends with \<open>r\<close> (an error thrown, or the reported \<^verbatim>\<open>action\<close>).
  \<open>NoCallback r\<close>: the store ends with \<open>r\<close> without calling back.
\<close>

datatype VoteScript = NoCallback "err + string" | Decide string "err + string"

text \<open>
  The collaborators of the controller, each call answered by its outcome: session store,
  credit ledger and queue store. A credit state is the balance the ledger returns.
\<close>

record Services =
  getSession :: "string \<Rightarrow> err + Session option"
  getGuestById :: "string \<Rightarrow> err + Guest option"
  spendCredits :: "string \<Rightarrow> int \<Rightarrow> err + int"
  addCredits :: "string \<Rightarrow> int \<Rightarrow> err + int"
  addToQueue :: "string \<Rightarrow> string \<Rightarrow> Actor \<Rightarrow> err + QueueItem"
  getQueueWithNext :: "string \<Rightarrow> err + QueueState"
  getQueueItemWithSession :: "string \<Rightarrow> err + QueueItemWithSession option"
  removeFromQueue :: "string \<Rightarrow> Actor \<Rightarrow> err option"
  storeVote :: "string \<Rightarrow> Actor \<Rightarrow> int \<Rightarrow> VoteScript"

text \<open>
  What a handler does to the outside, in order. A ledger call carries the user, the
  amount and whether the ledger accepted it.
\<close>

datatype Effect =
    DeleteGuestSession string
  | EnsureMonitor string string "string option"
  | RequestImmediateSync string
  | SpendCredits string int bool
  | AddCredits string int bool
  | AddToQueue string string Actor
  | RemoveFromQueue string Actor
  | VoteCall string Actor int
  | GetQueueWithNext string
  | BroadcastQueue string
  | ConsoleError string

datatype Body =
    ErrorBody string
  | AddPayload QueueItem Role QueueState "int option"
  | RemovePayload QueueState "int option"
  | VotePayload string QueueState "int option"

type_synonym Response = "int \<times> Body"

definition sessionNotFound :: string where
  "sessionNotFound = ''Session not found or inactive''"

definition joinFirst :: string where
  "joinFirst = ''Join the session before interacting with the queue''"

text \<open>\<^verbatim>\<open>QueueController.resolveSessionActor\<close>\<close>

definition resolveSessionActor ::
  "SoundtrackConfig \<Rightarrow> Services \<Rightarrow> Request \<Rightarrow> string \<Rightarrow> (err + string + Context) \<times> Effect list" where
  "resolveSessionActor cfg svc req sessionId =
     (case getSession svc sessionId of
        Inl e \<Rightarrow> (Inl e, [])
      | Inr None \<Rightarrow> (Inr (Inl sessionNotFound), [])
      | Inr (Some session) \<Rightarrow>
          if \<not> session_isActive session then (Inr (Inl sessionNotFound), [])
          else
            let isHost = (req_userId req = Some (session_hostId session));
                zone = or_else (session_soundtrackZoneId session) (defaultSoundZone cfg)
            in if isHost then
                 (Inr (Inr \<lparr>ctx_session = session, ctx_actor = UserActor (session_hostId session),
                            ctx_role = RoleHost, ctx_soundZoneId = zone\<rparr>), [])
               else
                 (case req_guestSessions req sessionId of
                    None \<Rightarrow> (Inr (Inl joinFirst), [])
                  | Some guestDataId \<Rightarrow>
                      (case getGuestById svc guestDataId of
                         Inl e \<Rightarrow> (Inl e, [])
                       | Inr None \<Rightarrow> (Inr (Inl joinFirst), [DeleteGuestSession sessionId])
                       | Inr (Some g) \<Rightarrow>
                           if guest_sessionId g \<noteq> sessionId then
                             (Inr (Inl joinFirst), [DeleteGuestSession sessionId])
                           else if guest_id g = [] then (Inr (Inl joinFirst), [])
                           else
                             (Inr (Inr \<lparr>ctx_session = session, ctx_actor = GuestActor (guest_id g),
                                        ctx_role = RoleGuest, ctx_soundZoneId = zone\<rparr>), []))))"

text \<open>\<^verbatim>\<open>QueueController.emitQueueState\<close>\<close>

definition emitQueueState ::
  "Services \<Rightarrow> Request \<Rightarrow> string \<Rightarrow> (err + QueueState) \<times> Effect list" where
  "emitQueueState svc req sessionId =
     (case getQueueWithNext svc sessionId of
        Inl e \<Rightarrow> (Inl e, [GetQueueWithNext sessionId])
      | Inr state \<Rightarrow>
          (Inr state,
           GetQueueWithNext sessionId # (if req_hasIo req then [BroadcastQueue sessionId] else [])))"

text \<open>\<^verbatim>\<open>error.message || fallback\<close>\<close>

definition messageOr :: "err \<Rightarrow> string \<Rightarrow> string" where
  "messageOr e fallback = (if err_message e \<noteq> [] then err_message e else fallback)"

subsection \<open>The add handler\<close>

text \<open>
  The outer \<^verbatim>\<open>catch\<close> of \<^verbatim>\<open>add\<close>. \<open>spentInfo\<close> is the receipt
  \<^verbatim>\<open>req._spentCreditsForQueue\<close> (amount and user) at the throw.
\<close>

definition addCatch :: "Services \<Rightarrow> (int \<times> string) option \<Rightarrow> err \<Rightarrow> Response \<times> Effect list" where
  "addCatch svc spentInfo error =
     (case error of
        CreditError status message \<Rightarrow>
          ((status, ErrorBody message), [ConsoleError ''Add to queue error:''])
      | OtherError message \<Rightarrow>
          let refund =
                (case spentInfo of
                   None \<Rightarrow> []
                 | Some (amount, clerkUserId) \<Rightarrow>
                     (case addCredits svc clerkUserId amount of
                        Inr credits \<Rightarrow> [AddCredits clerkUserId amount True]
                      | Inl refundError \<Rightarrow>
                          [AddCredits clerkUserId amount False,
                           ConsoleError ''Failed to refund credits after queue error:'']))
          in ((if message = ''Track already in queue'' then 400 else 500,
               ErrorBody (messageOr error ''Failed to add to queue'')),
              ConsoleError ''Add to queue error:'' # refund))"

text \<open>
  The statements of \<^verbatim>\<open>add\<close> after the spend: queue write, queue state read and
  broadcast, sync request.
\<close>

definition processAdd ::
  "Services \<Rightarrow> Request \<Rightarrow> string \<Rightarrow> string \<Rightarrow> Actor \<Rightarrow> (err + QueueItem \<times> QueueState) \<times> Effect list" where
  "processAdd svc req sessionId trackId actor =
     (case addToQueue svc sessionId trackId actor of
        Inl e \<Rightarrow> (Inl e, [AddToQueue sessionId trackId actor])
      | Inr queueItem \<Rightarrow>
          (case emitQueueState svc req sessionId of
             (Inl e, evs) \<Rightarrow> (Inl e, AddToQueue sessionId trackId actor # evs)
           | (Inr state, evs) \<Rightarrow>
               (Inr (queueItem, state),
                AddToQueue sessionId trackId actor # evs @ [RequestImmediateSync sessionId])))"

definition finishAdd ::
  "Services \<Rightarrow> Request \<Rightarrow> string \<Rightarrow> string \<Rightarrow> Context \<Rightarrow> int option \<Rightarrow> (int \<times> string) option
     \<Rightarrow> Response \<times> Effect list" where
  "finishAdd svc req sessionId trackId ctx guestCreditState spentInfo =
     (case processAdd svc req sessionId trackId (ctx_actor ctx) of
        (Inl e, evs) \<Rightarrow>
          (case addCatch svc spentInfo e of (response, cevs) \<Rightarrow> (response, evs @ cevs))
      | (Inr (queueItem, state), evs) \<Rightarrow>
          ((200, AddPayload queueItem (ctx_role ctx) state guestCreditState), evs))"

text \<open>\<^verbatim>\<open>add\<close> from the resolved context on.\<close>

definition addAs ::
  "CreditCosts \<Rightarrow> Services \<Rightarrow> Request \<Rightarrow> string \<Rightarrow> string \<Rightarrow> Content \<Rightarrow> Context
     \<Rightarrow> Response \<times> Effect list" where
  "addAs costs svc req sessionId trackId content ctx =
     (let allowExplicit = (case session_allowExplicit (ctx_session ctx) of None \<Rightarrow> True | Some b \<Rightarrow> b);
          clerkUserId = req_authUserId req;
          ensure = [EnsureMonitor sessionId (session_hostId (ctx_session ctx)) (ctx_soundZoneId ctx)]
      in if \<not> allowExplicit \<and> content_explicit content = Some True then
           ((400, ErrorBody ''Explicit tracks are disabled for this session''), ensure)
         else if ctx_role ctx = RoleGuest then
           (case clerkUserId of
              None \<Rightarrow> ((401, ErrorBody ''Not authenticated''), ensure)
            | Some uid \<Rightarrow>
                if uid = [] then ((401, ErrorBody ''Not authenticated''), ensure)
                else
                  (case spendCredits svc uid (GUEST_TRACK_COST costs) of
                     Inl (CreditError status message) \<Rightarrow>
                       ((status, ErrorBody message),
                        ensure @ [SpendCredits uid (GUEST_TRACK_COST costs) False])
                   | Inl (OtherError message) \<Rightarrow>
                       (case addCatch svc None (OtherError message) of
                          (response, cevs) \<Rightarrow>
                            (response,
                             ensure @ [SpendCredits uid (GUEST_TRACK_COST costs) False] @ cevs))
                   | Inr credits \<Rightarrow>
                       (case finishAdd svc req sessionId trackId ctx (Some credits)
                               (Some (GUEST_TRACK_COST costs, uid)) of
                          (response, evs) \<Rightarrow>
                            (response,
                             ensure @ [SpendCredits uid (GUEST_TRACK_COST costs) True] @ evs))))
         else
           (case finishAdd svc req sessionId trackId ctx None None of
              (response, evs) \<Rightarrow> (response, ensure @ evs)))"

text \<open>
  \<^verbatim>\<open>QueueController.add\<close>. The receipt left on the request by an earlier use is deleted
  before the first call that can throw, so the handler starts without one.
\<close>

definition add ::
  "CreditCosts \<Rightarrow> SoundtrackConfig \<Rightarrow> Services \<Rightarrow> Request \<Rightarrow> string \<Rightarrow> Content option
     \<Rightarrow> Response \<times> Effect list" where
  "add costs cfg svc req sessionId body =
     (case body of
        None \<Rightarrow> ((400, ErrorBody ''Track content is required''), [])
      | Some content \<Rightarrow>
          (case (content_id content, content_name content) of
             (Some trackId, Some name) \<Rightarrow>
               if trackId = [] \<or> name = [] then
                 ((400, ErrorBody ''Track id and name are required''), [])
               else
                 (case resolveSessionActor cfg svc req sessionId of
                    (Inl e, evs) \<Rightarrow>
                      (case addCatch svc None e of (response, cevs) \<Rightarrow> (response, evs @ cevs))
                  | (Inr (Inl contextError), evs) \<Rightarrow>
                      ((if contextError = sessionNotFound then 404 else 401,
                        ErrorBody contextError), evs)
                  | (Inr (Inr ctx), evs) \<Rightarrow>
                      (case addAs costs svc req sessionId trackId content ctx of
                         (response, aevs) \<Rightarrow> (response, evs @ aevs)))
           | _ \<Rightarrow> ((400, ErrorBody ''Track id and name are required''), [])))"

subsection \<open>The remove handler\<close>

text \<open>The \<^verbatim>\<open>catch\<close> of \<^verbatim>\<open>remove\<close>.\<close>

definition removeCatch :: "err \<Rightarrow> Response \<times> Effect list" where
  "removeCatch error =
     ((if err_message error = ''Not authorized to remove this track'' then 403 else 500,
       ErrorBody (messageOr error ''Failed to remove from queue'')),
      [ConsoleError ''Remove from queue error:''])"

text \<open>The ledger identity of the guest who added the item, as \<^verbatim>\<open>remove\<close> resolves it.\<close>

definition resolveGuestClerkUserId ::
  "Services \<Rightarrow> QueueItemWithSession \<Rightarrow> string option \<times> Effect list" where
  "resolveGuestClerkUserId svc queueItem =
     (let included = (case item_addedByGuest queueItem of
                        None \<Rightarrow> None
                      | Some g \<Rightarrow> guest_clerkUserId g)
      in if \<not> truthy included \<and> truthy (item_addedByGuestId queueItem) then
           (case item_addedByGuestId queueItem of
              None \<Rightarrow> (included, [])
            | Some guestId \<Rightarrow>
                (case getGuestById svc guestId of
                   Inl lookupError \<Rightarrow>
                     (included, [ConsoleError ''Failed to resolve guest Clerk ID for refund:''])
                 | Inr None \<Rightarrow> (None, [])
                 | Inr (Some g) \<Rightarrow> (guest_clerkUserId g, [])))
         else (included, []))"

text \<open>The refund of \<^verbatim>\<open>remove\<close>: the credits to show the caller, and the calls made.\<close>

definition refundRemoved ::
  "CreditCosts \<Rightarrow> Services \<Rightarrow> Request \<Rightarrow> string option \<Rightarrow> int option \<times> Effect list" where
  "refundRemoved costs svc req guestClerkUserId =
     (case guestClerkUserId of
        None \<Rightarrow> (None, [])
      | Some uid \<Rightarrow>
          if uid = [] then (None, [])
          else
            (case addCredits svc uid (GUEST_TRACK_COST costs) of
               Inr credits \<Rightarrow>
                 (if truthy (req_authUserId req) \<and> req_authUserId req = Some uid
                  then Some credits else None,
                  [AddCredits uid (GUEST_TRACK_COST costs) True])
             | Inl refundError \<Rightarrow>
                 (None,
                  [AddCredits uid (GUEST_TRACK_COST costs) False,
                   ConsoleError ''Failed to refund credits after queue removal:''])))"

text \<open>\<^verbatim>\<open>remove\<close> from the resolved context on.\<close>

definition removeAs ::
  "CreditCosts \<Rightarrow> SoundtrackConfig \<Rightarrow> Services \<Rightarrow> Request \<Rightarrow> string \<Rightarrow> QueueItemWithSession
     \<Rightarrow> Context \<Rightarrow> Response \<times> Effect list" where
  "removeAs costs cfg svc req queueItemId queueItem ctx =
     (case removeFromQueue svc queueItemId (ctx_actor ctx) of
        Some e \<Rightarrow>
          (case removeCatch e of
             (response, cevs) \<Rightarrow> (response, RemoveFromQueue queueItemId (ctx_actor ctx) # cevs))
      | None \<Rightarrow>
          (case resolveGuestClerkUserId svc queueItem of
             (guestClerkUserId, levs) \<Rightarrow>
               (case refundRemoved costs svc req guestClerkUserId of
                  (actorCredits, revs) \<Rightarrow>
                    let sessionId = item_sessionId queueItem;
                        ensure =
                          (if session_isActive (item_session queueItem) then
                             [EnsureMonitor sessionId (session_hostId (item_session queueItem))
                                (or_else (session_soundtrackZoneId (item_session queueItem))
                                   (defaultSoundZone cfg))]
                           else []);
                        before = RemoveFromQueue queueItemId (ctx_actor ctx) # levs @ revs @ ensure
                    in (case emitQueueState svc req sessionId of
                          (Inl e, evs) \<Rightarrow>
                            (case removeCatch e of
                               (response, cevs) \<Rightarrow> (response, before @ evs @ cevs))
                        | (Inr state, evs) \<Rightarrow>
                            ((200, RemovePayload state actorCredits),
                             before @ evs @ [RequestImmediateSync sessionId])))))"

text \<open>\<^verbatim>\<open>QueueController.remove\<close>\<close>

definition remove ::
  "CreditCosts \<Rightarrow> SoundtrackConfig \<Rightarrow> Services \<Rightarrow> Request \<Rightarrow> string \<Rightarrow> Response \<times> Effect list" where
  "remove costs cfg svc req queueItemId =
     (case getQueueItemWithSession svc queueItemId of
        Inl e \<Rightarrow> removeCatch e
      | Inr None \<Rightarrow> ((404, ErrorBody ''Queue item not found''), [])
      | Inr (Some queueItem) \<Rightarrow>
          (case resolveSessionActor cfg svc req (item_sessionId queueItem) of
             (Inl e, evs) \<Rightarrow>
               (case removeCatch e of (response, cevs) \<Rightarrow> (response, evs @ cevs))
           | (Inr (Inl contextError), evs) \<Rightarrow>
               ((if contextError = sessionNotFound then 404 else 403, ErrorBody contextError), evs)
           | (Inr (Inr ctx), evs) \<Rightarrow>
               (case removeAs costs cfg svc req queueItemId queueItem ctx of
                  (response, revs) \<Rightarrow> (response, evs @ revs))))"

subsection \<open>The vote handler\<close>

text \<open>
  The \<^verbatim>\<open>catch\<close> of \<^verbatim>\<open>vote\<close>. \<open>spentVoteCredits\<close> is the handler's variable of that
  name at the throw.
\<close>

definition voteCatch :: "Services \<Rightarrow> (int \<times> string) option \<Rightarrow> err \<Rightarrow> Response \<times> Effect list" where
  "voteCatch svc spentVoteCredits error =
     (let refund =
            (case spentVoteCredits of
               None \<Rightarrow> []
             | Some (amount, refundUserId) \<Rightarrow>
                 (case addCredits svc refundUserId amount of
                    Inr credits \<Rightarrow> [AddCredits refundUserId amount True]
                  | Inl refundError \<Rightarrow>
                      [AddCredits refundUserId amount False,
                       ConsoleError ''Failed to refund vote credits after error:'']))
      in (case error of
            CreditError status message \<Rightarrow>
              ((status, ErrorBody message), ConsoleError ''Vote error:'' # refund)
          | OtherError message \<Rightarrow>
              ((500, ErrorBody ''Failed to vote''), ConsoleError ''Vote error:'' # refund)))"

text \<open>The ledger identity \<^verbatim>\<open>clerkUserId\<close> of the voter, as \<^verbatim>\<open>vote\<close> resolves it.\<close>

definition voteIdentity :: "Services \<Rightarrow> Request \<Rightarrow> Context \<Rightarrow> err + string option" where
  "voteIdentity svc req ctx =
     (case ctx_role ctx of
        RoleHost \<Rightarrow> Inr (req_authUserId req)
      | RoleGuest \<Rightarrow>
          (case ctx_actor ctx of
             UserActor u \<Rightarrow> Inr None
           | GuestActor guestId \<Rightarrow>
               if guestId = [] then Inr None
               else
                 (case getGuestById svc guestId of
                    Inl e \<Rightarrow> Inl e
                  | Inr None \<Rightarrow> Inr None
                  | Inr (Some g) \<Rightarrow> Inr (guest_clerkUserId g))))"

text \<open>
  The \<^verbatim>\<open>beforeChange\<close> callback: the error it throws, or the values it leaves in
  \<^verbatim>\<open>spentVoteCredits\<close> and \<^verbatim>\<open>actorCredits\<close>.
\<close>

definition beforeChange ::
  "CreditCosts \<Rightarrow> Services \<Rightarrow> Request \<Rightarrow> string option \<Rightarrow> string
     \<Rightarrow> (err + (int \<times> string) option \<times> int option) \<times> Effect list" where
  "beforeChange costs svc req clerkUserId intentAction =
     (case clerkUserId of
        None \<Rightarrow> (Inr (None, None), [])
      | Some uid \<Rightarrow>
          if uid = [] \<or> intentAction \<noteq> ''add'' then (Inr (None, None), [])
          else
            (case spendCredits svc uid (VOTE_REACTION_COST costs) of
               Inl e \<Rightarrow> (Inl e, [SpendCredits uid (VOTE_REACTION_COST costs) False])
             | Inr credits \<Rightarrow>
                 (Inr (Some (VOTE_REACTION_COST costs, uid),
                       if req_authUserId req = Some uid then Some credits else None),
                  [SpendCredits uid (VOTE_REACTION_COST costs) True])))"

text \<open>
  Modelled from the spec: \<^verbatim>\<open>queueService.vote\<close> run on a script. The result is the error
  thrown or the reported action, the values the callback left, and the calls the
  callback made.
\<close>

definition queueServiceVote ::
  "VoteScript \<Rightarrow> (string \<Rightarrow> (err + (int \<times> string) option \<times> int option) \<times> Effect list)
     \<Rightarrow> (err + string) \<times> ((int \<times> string) option \<times> int option) \<times> Effect list" where
  "queueServiceVote script callback =
     (case script of
        NoCallback r \<Rightarrow> (r, (None, None), [])
      | Decide intentAction r \<Rightarrow>
          (case callback intentAction of
             (Inl e, evs) \<Rightarrow> (Inl e, (None, None), evs)
           | (Inr left, evs) \<Rightarrow> (r, left, evs)))"

text \<open>The end of the \<^verbatim>\<open>try\<close> block of \<^verbatim>\<open>vote\<close>, after \<^verbatim>\<open>spentVoteCredits = null\<close>.\<close>

definition finishVote ::
  "Services \<Rightarrow> Request \<Rightarrow> string \<Rightarrow> string \<Rightarrow> int option \<Rightarrow> Response \<times> Effect list" where
  "finishVote svc req sessionId action actorCredits =
     (case emitQueueState svc req sessionId of
        (Inl e, evs) \<Rightarrow>
          (case voteCatch svc None e of (response, cevs) \<Rightarrow> (response, evs @ cevs))
      | (Inr state, evs) \<Rightarrow>
          ((200, VotePayload action state actorCredits),
           evs @ [RequestImmediateSync sessionId]))"

text \<open>\<^verbatim>\<open>vote\<close> from the resolved ledger identity on.\<close>

definition voteAs ::
  "CreditCosts \<Rightarrow> Services \<Rightarrow> Request \<Rightarrow> string \<Rightarrow> string \<Rightarrow> Actor \<Rightarrow> int \<Rightarrow> string option
     \<Rightarrow> Response \<times> Effect list" where
  "voteAs costs svc req queueItemId sessionId actor voteType clerkUserId =
     (case queueServiceVote (storeVote svc queueItemId actor voteType)
             (beforeChange costs svc req clerkUserId) of
        (Inl e, (spentVoteCredits, actorCredits), evs) \<Rightarrow>
          (case voteCatch svc spentVoteCredits e of
             (response, cevs) \<Rightarrow> (response, VoteCall queueItemId actor voteType # evs @ cevs))
      | (Inr action, (spentVoteCredits, actorCredits), evs) \<Rightarrow>
          let plain =
                (case finishVote svc req sessionId action actorCredits of
                   (response, fevs) \<Rightarrow>
                     (response, VoteCall queueItemId actor voteType # evs @ fevs))
          in (case clerkUserId of
                None \<Rightarrow> plain
              | Some uid \<Rightarrow>
                  if action = ''removed'' \<and> uid \<noteq> [] then
                    (case addCredits svc uid (VOTE_REACTION_COST costs) of
                       Inl e \<Rightarrow>
                         (case voteCatch svc spentVoteCredits e of
                            (response, cevs) \<Rightarrow>
                              (response,
                               VoteCall queueItemId actor voteType # evs
                                 @ [AddCredits uid (VOTE_REACTION_COST costs) False] @ cevs))
                     | Inr credits \<Rightarrow>
                         (case finishVote svc req sessionId action
                                 (if req_authUserId req = Some uid then Some credits
                                  else actorCredits) of
                            (response, fevs) \<Rightarrow>
                              (response,
                               VoteCall queueItemId actor voteType # evs
                                 @ [AddCredits uid (VOTE_REACTION_COST costs) True] @ fevs)))
                  else plain))"

text \<open>\<^verbatim>\<open>QueueController.vote\<close>\<close>

definition vote ::
  "CreditCosts \<Rightarrow> SoundtrackConfig \<Rightarrow> Services \<Rightarrow> Request \<Rightarrow> string \<Rightarrow> int
     \<Rightarrow> Response \<times> Effect list" where
  "vote costs cfg svc req queueItemId voteType =
     (if voteType \<noteq> 1 \<and> voteType \<noteq> - 1 then
        ((400, ErrorBody ''Vote type must be 1 or -1''), [])
      else
        (case getQueueItemWithSession svc queueItemId of
           Inl e \<Rightarrow> voteCatch svc None e
         | Inr None \<Rightarrow> ((404, ErrorBody ''Queue item not found''), [])
         | Inr (Some queueItem) \<Rightarrow>
             (case resolveSessionActor cfg svc req (item_sessionId queueItem) of
                (Inl e, evs) \<Rightarrow>
                  (case voteCatch svc None e of (response, cevs) \<Rightarrow> (response, evs @ cevs))
              | (Inr (Inl contextError), evs) \<Rightarrow>
                  ((if contextError = sessionNotFound then 404 else 401,
                    ErrorBody contextError), evs)
              | (Inr (Inr ctx), evs) \<Rightarrow>
                  (case voteIdentity svc req ctx of
                     Inl e \<Rightarrow>
                       (case voteCatch svc None e of
                          (response, cevs) \<Rightarrow> (response, evs @ cevs))
                   | Inr clerkUserId \<Rightarrow>
                       (case voteAs costs svc req queueItemId (item_sessionId queueItem)
                               (ctx_actor ctx) voteType clerkUserId of
                          (response, vevs) \<Rightarrow> (response, evs @ vevs))))))"

subsection \<open>Reading a handler's effects\<close>

fun isSpend :: "Effect \<Rightarrow> bool" where
  "isSpend (SpendCredits u a ok) = True"
| "isSpend e = False"

fun isCredit :: "Effect \<Rightarrow> bool" where
  "isCredit (AddCredits u a ok) = True"
| "isCredit e = False"

fun isQueueWrite :: "Effect \<Rightarrow> bool" where
  "isQueueWrite (AddToQueue s t a) = True"
| "isQueueWrite (RemoveFromQueue q a) = True"
| "isQueueWrite (VoteCall q a v) = True"
| "isQueueWrite e = False"

text \<open>The ledger calls of a run, in order.\<close>

definition ledgerCalls :: "Effect list \<Rightarrow> Effect list" where
  "ledgerCalls evs = filter (\<lambda>e. isSpend e \<or> isCredit e) evs"

text \<open>What the accepted ledger calls of a run add to a user's balance.\<close>

fun ledgerDelta :: "string \<Rightarrow> Effect list \<Rightarrow> int" where
  "ledgerDelta uid [] = 0"
| "ledgerDelta uid (SpendCredits u a ok # evs) =
     (if u = uid \<and> ok then - a else 0) + ledgerDelta uid evs"
| "ledgerDelta uid (AddCredits u a ok # evs) =
     (if u = uid \<and> ok then a else 0) + ledgerDelta uid evs"
| "ledgerDelta uid (e # evs) = ledgerDelta uid evs"


text \<open>The site of a provider assignment call; the sites a pass used, in order.\<close>

fun eventSite :: "PollEvent \<Rightarrow> Site option" where
  "eventSite (SetSoundZoneContent site zone content) = Some site"
| "eventSite (Play site zone) = Some site"
| "eventSite e = None"

fun sitesUsed :: "PollEvent list \<Rightarrow> Site list" where
  "sitesUsed [] = []"
| "sitesUsed (e # evs) =
     (case eventSite e of None \<Rightarrow> sitesUsed evs | Some site \<Rightarrow> site # sitesUsed evs)"

text \<open>Both calls of an assignment of track \<open>t\<close> were made from the given site.\<close>

definition assigned :: "Site \<Rightarrow> string \<Rightarrow> string \<Rightarrow> PollEvent list \<Rightarrow> bool" where
  "assigned site zone t evs =
     (SetSoundZoneContent site zone t \<in> set evs \<and> Play site zone \<in> set evs)"

section \<open>Example inputs\<close>

text \<open>A \<^verbatim>\<open>Date.parse\<close> that knows one timestamp, the epoch.\<close>

definition parseEpoch :: "string \<Rightarrow> int option" where
  "parseEpoch s = (if s = ''1970-01-01T00:00:00.000Z'' then Some 0 else None)"

definition exampleTrack :: "int option \<Rightarrow> Track" where
  "exampleTrack d =
     \<lparr>track_id = ''T1'', track_name = ''Song'', track_durationMs = d,
      track_artists = None, track_album = None\<rparr>"

text \<open>A report of track \<open>T1\<close>, playing, started at the epoch.\<close>

definition exampleNowPlaying :: "int option \<Rightarrow> NowPlaying" where
  "exampleNowPlaying d =
     \<lparr>np_startedAt = Some ''1970-01-01T00:00:00.000Z'', np_state = Some ''PLAYING'',
      np_track = Some (exampleTrack d)\<rparr>"

text \<open>A configuration with default content and no default zone.\<close>

definition exampleConfig :: SoundtrackConfig where
  "exampleConfig = \<lparr>defaultSoundZone = None, defaultContentId = Some ''DEFAULT''\<rparr>"

text \<open>A monitor of zone \<open>Z1\<close> with a pending timer, and services around it.\<close>

definition exampleMonitor :: MonitorState where
  "exampleMonitor =
     \<lparr>hostId = ''H1'', soundZoneId = Some ''Z1'', timeout = Some 0, processing = False,
      currentTrackId = None, awaitingTrackId = None, requestIssuedAt = None\<rparr>"

definition exampleService :: PlaybackService where
  "exampleService =
     \<lparr>io = True, monitors = [''S1'' \<mapsto> exampleMonitor], timers = [(0, ''S1'', 5000)],
      nextHandle = 1\<rparr>"

definition emptyService :: PlaybackService where
  "emptyService = \<lparr>io = True, monitors = Map.empty, timers = [], nextHandle = 0\<rparr>"

definition busyService :: PlaybackService where
  "busyService =
     \<lparr>io = True, monitors = [''S1'' \<mapsto> exampleMonitor\<lparr>timeout := None, processing := True\<rparr>],
      timers = [], nextHandle = 1\<rparr>"

text \<open>
  A monitor whose timer has fired, awaiting track \<open>T1\<close>; a pass in which the provider
  reports \<open>T1\<close> playing and the queue is empty; a pass in which the provider fails.
\<close>

definition awaitingMonitor :: MonitorState where
  "awaitingMonitor =
     \<lparr>hostId = ''H1'', soundZoneId = Some ''Z1'', timeout = None, processing = False,
      currentTrackId = None, awaitingTrackId = Some ''T1'', requestIssuedAt = Some 160000\<rparr>"

definition awaitingService :: PlaybackService where
  "awaitingService =
     \<lparr>io = True, monitors = [''S1'' \<mapsto> awaitingMonitor], timers = [], nextHandle = 1\<rparr>"

definition emptyQueue :: QueueState where
  "emptyQueue = \<lparr>nextUp = None, queue = []\<rparr>"

definition examplePollEnv :: PollEnv where
  "examplePollEnv =
     \<lparr>pe_parse = parseEpoch,
      pe_getNowPlaying = Inr (Some (exampleNowPlaying (Some 180000))),
      pe_getQueueWithNext = Inr emptyQueue,
      pe_markTrackAsPlayed = Inr False,
      pe_refreshQueue = Inr emptyQueue,
      pe_now_retryCheck = 170000,
      pe_retry_setContent = None,
      pe_retry_play = None,
      pe_now_retried = 170000,
      pe_assign_setContent = None,
      pe_assign_play = None,
      pe_now_assigned = 170000,
      pe_getMostRecentQueueItemForTrack = Inr None,
      pe_now_payload = 170000,
      pe_broadcastQueue = None,
      pe_broadcastPlayback = None,
      pe_now_delay = 170000\<rparr>"

definition failingPollEnv :: PollEnv where
  "failingPollEnv = examplePollEnv\<lparr>pe_getNowPlaying := Inl (OtherError ''network'')\<rparr>"

text \<open>
  A session \<open>S1\<close> of host \<open>host1\<close>, a guest \<open>g1\<close> whose ledger identity is \<open>u1\<close>, the
  requests of the guest and of the host, and a track to add. Both costs are 1 credit.
\<close>

definition exampleCosts :: CreditCosts where
  "exampleCosts = \<lparr>GUEST_TRACK_COST = 1, VOTE_REACTION_COST = 1\<rparr>"

definition exampleSession :: Session where
  "exampleSession =
     \<lparr>session_isActive = True, session_hostId = ''host1'',
      session_soundtrackZoneId = Some ''Z1'', session_allowExplicit = None\<rparr>"

definition exampleGuest :: Guest where
  "exampleGuest =
     \<lparr>guest_id = ''g1'', guest_sessionId = ''S1'', guest_name = ''Ann'',
      guest_clerkUserId = Some ''u1''\<rparr>"

definition guestRequest :: Request where
  "guestRequest =
     \<lparr>req_userId = None, req_guestSessions = [''S1'' \<mapsto> ''g1''],
      req_authUserId = Some ''u1'', req_hasIo = True\<rparr>"

definition hostRequest :: Request where
  "hostRequest =
     \<lparr>req_userId = Some ''host1'', req_guestSessions = Map.empty,
      req_authUserId = Some ''u0'', req_hasIo = True\<rparr>"

definition guestContext :: Context where
  "guestContext =
     \<lparr>ctx_session = exampleSession, ctx_actor = GuestActor ''g1'', ctx_role = RoleGuest,
      ctx_soundZoneId = Some ''Z1''\<rparr>"

definition hostContext :: Context where
  "hostContext =
     \<lparr>ctx_session = exampleSession, ctx_actor = UserActor ''host1'', ctx_role = RoleHost,
      ctx_soundZoneId = Some ''Z1''\<rparr>"

definition exampleItem :: QueueItem where
  "exampleItem =
     \<lparr>item_sessionId = ''S1'', item_spotifyTrackId = ''T1'', item_addedBy = None,
      item_addedByGuest = Some exampleGuest, item_addedByGuestId = Some ''g1''\<rparr>"

definition exampleItemWithSession :: QueueItemWithSession where
  "exampleItemWithSession =
     \<lparr>item_sessionId = ''S1'', item_spotifyTrackId = ''T1'', item_addedBy = None,
      item_addedByGuest = Some exampleGuest, item_addedByGuestId = Some ''g1'',
      item_session = exampleSession\<rparr>"

definition exampleContent :: Content where
  "exampleContent =
     \<lparr>content_id = Some ''T1'', content_name = Some ''Song'', content_artists = None,
      content_album = None, content_imageUrl = None, content_durationMs = None,
      content_explicit = None\<rparr>"

text \<open>Collaborators that accept every call; the store decides to add a reaction.\<close>

definition exampleServices :: Services where
  "exampleServices =
     \<lparr>getSession = (\<lambda>sid. if sid = ''S1'' then Inr (Some exampleSession) else Inr None),
      getGuestById = (\<lambda>gid. if gid = ''g1'' then Inr (Some exampleGuest) else Inr None),
      spendCredits = (\<lambda>uid amount. Inr 9),
      addCredits = (\<lambda>uid amount. Inr 10),
      addToQueue = (\<lambda>sid trackId actor. Inr exampleItem),
      getQueueWithNext = (\<lambda>sid. Inr emptyQueue),
      getQueueItemWithSession = (\<lambda>qid. Inr (Some exampleItemWithSession)),
      removeFromQueue = (\<lambda>qid actor. None),
      storeVote = (\<lambda>qid actor voteType. Decide ''add'' (Inr ''added''))\<rparr>"

text \<open>
  The queue write fails with a plain error, or with a credit error; the spend is
  rejected; the queue write and the refund both fail.
\<close>

definition duplicateTrackServices :: Services where
  "duplicateTrackServices =
     exampleServices\<lparr>addToQueue := (\<lambda>sid trackId actor. Inl (OtherError ''Track already in queue''))\<rparr>"

definition creditErrorQueueServices :: Services where
  "creditErrorQueueServices =
     exampleServices\<lparr>addToQueue :=
       (\<lambda>sid trackId actor. Inl (CreditError 402 ''Insufficient credits''))\<rparr>"

definition insufficientServices :: Services where
  "insufficientServices =
     exampleServices\<lparr>spendCredits := (\<lambda>uid amount. Inl (CreditError 402 ''Insufficient credits''))\<rparr>"

definition brokenRefundServices :: Services where
  "brokenRefundServices =
     duplicateTrackServices\<lparr>addCredits := (\<lambda>uid amount. Inl (OtherError ''ledger down''))\<rparr>"

text \<open>The ledger rejects every credit.\<close>

definition refundFailingServices :: Services where
  "refundFailingServices =
     exampleServices\<lparr>addCredits := (\<lambda>uid amount. Inl (OtherError ''ledger down''))\<rparr>"

text \<open>The store decides a removal and reports it.\<close>

definition removedVoteServices :: Services where
  "removedVoteServices =
     exampleServices\<lparr>storeVote := (\<lambda>qid actor voteType. Decide ''remove'' (Inr ''removed''))\<rparr>"

section \<open>Properties\<close>

subsection \<open>Progress and adaptive delay\<close>

lemma computeProgressMs_parsed:
  assumes "np_startedAt np = Some s" and "s \<noteq> []" and "parse s = Some t0"
  shows "computeProgressMs parse now (Some np) =
     Some (case np_duration (Some np) of
             Some d \<Rightarrow> if d > 0 then max 0 (min (now - t0) d) else max 0 (now - t0)
           | None \<Rightarrow> max 0 (now - t0))"
  using assms by (auto simp: computeProgressMs_def Let_def split: option.splits)

lemma computeProgressMs_le_duration:
  assumes "computeProgressMs parse now nowPlaying = Some p"
    and "np_duration nowPlaying = Some d" and "d > 0"
  shows "0 \<le> p \<and> p \<le> d"
  using assms
  by (auto simp: computeProgressMs_def Let_def split: option.splits if_splits)

text \<open>
  Claim C6. The adaptive poll delay is the clamp of remaining time plus the buffer of
  2500 ms between the floor of 2000 ms and the ceiling of 5000 ms when the report's state
  is Playing, the computed progress is not null and the duration is a positive number;
  otherwise it is the default interval of 5000 ms. For a playing track of 180000 ms that
  started 170000 ms ago the delay is 5000 ms.
\<close>

theorem derivePollDelay_clamped:
  "derivePollDelay parse now nowPlaying =
     (case (nowPlaying, computeProgressMs parse now nowPlaying, np_duration nowPlaying) of
        (Some np, Some p, Some d) \<Rightarrow>
          if np_state np = Some Playing \<and> d > 0
          then clamp ((d - p) + 2500) 2000 5000
          else 5000
      | _ \<Rightarrow> 5000)
   \<and> (np_state np = Some Playing \<and> np_startedAt np = Some s \<and> s \<noteq> [] \<and> parse s = Some t0
        \<and> now - t0 = 170000 \<and> np_duration (Some np) = Some 180000
      \<longrightarrow> derivePollDelay parse now (Some np) = 5000)"
proof -
  have general: "derivePollDelay parse now nowPlaying =
     (case (nowPlaying, computeProgressMs parse now nowPlaying, np_duration nowPlaying) of
        (Some np, Some p, Some d) \<Rightarrow>
          if np_state np = Some Playing \<and> d > 0
          then clamp ((d - p) + 2500) 2000 5000
          else 5000
      | _ \<Rightarrow> 5000)"
  proof (cases nowPlaying)
    case None
    then show ?thesis
      by (simp add: derivePollDelay_def computeProgressMs_def np_duration_def
          DEFAULT_POLL_INTERVAL_MS_def)
  next
    case (Some np')
    show ?thesis
    proof (cases "computeProgressMs parse now nowPlaying")
      case None
      then show ?thesis
        using Some by (simp add: derivePollDelay_def DEFAULT_POLL_INTERVAL_MS_def)
    next
      case p: (Some p)
      show ?thesis
      proof (cases "np_duration nowPlaying")
        case None
        then show ?thesis
          using Some p by (simp add: derivePollDelay_def DEFAULT_POLL_INTERVAL_MS_def)
      next
        case d: (Some d)
        have "d > 0 \<Longrightarrow> max 0 (d - p) = d - p"
          using computeProgressMs_le_duration [OF p d] by simp
        then show ?thesis
          using Some p d
          by (simp add: derivePollDelay_def clamp_def Let_def DEFAULT_POLL_INTERVAL_MS_def
              MIN_POLL_INTERVAL_MS_def)
      qed
    qed
  qed
  have scenario: "derivePollDelay parse now (Some np) = 5000"
    if "np_state np = Some Playing" "np_startedAt np = Some s" "s \<noteq> []" "parse s = Some t0"
      "now - t0 = 170000" "np_duration (Some np) = Some 180000"
    using that computeProgressMs_parsed [of np s parse t0 now]
    by (simp add: derivePollDelay_def Let_def DEFAULT_POLL_INTERVAL_MS_def
        MIN_POLL_INTERVAL_MS_def)
  from general scenario show ?thesis by blast
qed

theorem derivePollDelay_clamped_witness:
  "np_state (exampleNowPlaying (Some 180000)) = Some Playing
   \<and> np_startedAt (exampleNowPlaying (Some 180000)) = Some ''1970-01-01T00:00:00.000Z''
   \<and> parseEpoch ''1970-01-01T00:00:00.000Z'' = Some 0
   \<and> np_duration (Some (exampleNowPlaying (Some 180000))) = Some 180000
   \<and> computeProgressMs parseEpoch 170000 (Some (exampleNowPlaying (Some 180000))) = Some 170000
   \<and> clamp ((180000 - 170000) + 2500) 2000 5000 = 5000
   \<and> derivePollDelay parseEpoch 170000 (Some (exampleNowPlaying (Some 180000))) = 5000"
proof -
  have h: "np_state (exampleNowPlaying (Some 180000)) = Some Playing
      \<and> np_startedAt (exampleNowPlaying (Some 180000)) = Some ''1970-01-01T00:00:00.000Z''
      \<and> ''1970-01-01T00:00:00.000Z'' \<noteq> []
      \<and> parseEpoch ''1970-01-01T00:00:00.000Z'' = Some 0
      \<and> (170000::int) - 0 = 170000
      \<and> np_duration (Some (exampleNowPlaying (Some 180000))) = Some 180000"
    by (simp add: exampleNowPlaying_def exampleTrack_def parseEpoch_def Playing_def
        np_duration_def)
  have p: "computeProgressMs parseEpoch 170000 (Some (exampleNowPlaying (Some 180000)))
      = Some 170000"
    by (simp add: computeProgressMs_def exampleNowPlaying_def exampleTrack_def parseEpoch_def
        np_duration_def)
  have c: "clamp ((180000 - 170000) + 2500) 2000 5000 = 5000"
    by (simp add: clamp_def)
  from derivePollDelay_clamped
    [of parseEpoch 170000 "Some (exampleNowPlaying (Some 180000))"
        "exampleNowPlaying (Some 180000)" "''1970-01-01T00:00:00.000Z''" 0] h
  have "derivePollDelay parseEpoch 170000 (Some (exampleNowPlaying (Some 180000))) = 5000"
    by blast
  with h p c show ?thesis by blast
qed

text \<open>
  Claim C7, as stated: with a parseable start time and a known duration that is not
  negative, the progress is now minus start clamped between 0 and the duration. It
  fails for a duration of 0: 1000 ms after the start the progress is 1000, not 0.
\<close>

theorem computeProgressMs_zero_duration_counterexample:
  "np_startedAt (exampleNowPlaying (Some 0)) = Some ''1970-01-01T00:00:00.000Z''
   \<and> parseEpoch ''1970-01-01T00:00:00.000Z'' = Some 0
   \<and> np_duration (Some (exampleNowPlaying (Some 0))) = Some 0
   \<and> computeProgressMs parseEpoch 1000 (Some (exampleNowPlaying (Some 0))) = Some 1000
   \<and> computeProgressMs parseEpoch 1000 (Some (exampleNowPlaying (Some 0)))
       \<noteq> Some (clamp (1000 - 0) 0 0)"
  by (simp add: computeProgressMs_def exampleNowPlaying_def exampleTrack_def parseEpoch_def
      np_duration_def clamp_def)

text \<open>
  Claim C7, amended. With a parseable start time, the progress is now minus start
  clamped between 0 and the duration when the duration is known and positive; with a
  duration that is unknown, zero or negative it is now minus start, or 0 when that is
  negative. A start time in the future always gives progress 0.
\<close>

theorem computeProgressMs_clamped:
  "np_startedAt np = Some s \<and> s \<noteq> [] \<and> parse s = Some t0 \<longrightarrow>
     computeProgressMs parse now (Some np) =
       Some (case np_duration (Some np) of
               Some d \<Rightarrow> if d > 0 then clamp (now - t0) 0 d else max 0 (now - t0)
             | None \<Rightarrow> max 0 (now - t0))
     \<and> (now - t0 < 0 \<longrightarrow> computeProgressMs parse now (Some np) = Some 0)"
proof (intro impI)
  assume a: "np_startedAt np = Some s \<and> s \<noteq> [] \<and> parse s = Some t0"
  then have eq: "computeProgressMs parse now (Some np) =
     Some (case np_duration (Some np) of
             Some d \<Rightarrow> if d > 0 then max 0 (min (now - t0) d) else max 0 (now - t0)
           | None \<Rightarrow> max 0 (now - t0))"
    using computeProgressMs_parsed [of np s parse t0 now] by simp
  have "computeProgressMs parse now (Some np) =
       Some (case np_duration (Some np) of
               Some d \<Rightarrow> if d > 0 then clamp (now - t0) 0 d else max 0 (now - t0)
             | None \<Rightarrow> max 0 (now - t0))"
    unfolding eq by (simp add: clamp_def min.commute split: option.splits)
  moreover have "now - t0 < 0 \<longrightarrow> computeProgressMs parse now (Some np) = Some 0"
    unfolding eq by (auto split: option.splits)
  ultimately show "computeProgressMs parse now (Some np) =
       Some (case np_duration (Some np) of
               Some d \<Rightarrow> if d > 0 then clamp (now - t0) 0 d else max 0 (now - t0)
             | None \<Rightarrow> max 0 (now - t0))
     \<and> (now - t0 < 0 \<longrightarrow> computeProgressMs parse now (Some np) = Some 0)"
    by blast
qed

theorem computeProgressMs_clamped_witness:
  "np_startedAt (exampleNowPlaying (Some 180000)) = Some ''1970-01-01T00:00:00.000Z''
   \<and> parseEpoch ''1970-01-01T00:00:00.000Z'' = Some 0
   \<and> computeProgressMs parseEpoch 200000 (Some (exampleNowPlaying (Some 180000)))
       = Some 180000
   \<and> (- 5) - 0 < (0::int)
   \<and> computeProgressMs parseEpoch (- 5) (Some (exampleNowPlaying (Some 180000))) = Some 0"
proof -
  have h: "np_startedAt (exampleNowPlaying (Some 180000)) = Some ''1970-01-01T00:00:00.000Z''
      \<and> ''1970-01-01T00:00:00.000Z'' \<noteq> []
      \<and> parseEpoch ''1970-01-01T00:00:00.000Z'' = Some 0"
    by (simp add: exampleNowPlaying_def parseEpoch_def)
  have d: "np_duration (Some (exampleNowPlaying (Some 180000))) = Some 180000"
    by (simp add: exampleNowPlaying_def exampleTrack_def np_duration_def)
  have a: "computeProgressMs parseEpoch 200000 (Some (exampleNowPlaying (Some 180000)))
      = Some 180000"
    using computeProgressMs_clamped
      [of "exampleNowPlaying (Some 180000)" "''1970-01-01T00:00:00.000Z''" parseEpoch 0 200000]
      h d
    by (simp add: clamp_def)
  have b: "computeProgressMs parseEpoch (- 5) (Some (exampleNowPlaying (Some 180000))) = Some 0"
    using computeProgressMs_clamped
      [of "exampleNowPlaying (Some 180000)" "''1970-01-01T00:00:00.000Z''" parseEpoch 0 "- 5"]
      h d
    by (simp add: clamp_def)
  from h a b show ?thesis by simp
qed

subsection \<open>Scheduling\<close>

lemma nullish_None_right: "nullish a None = a"
  by (cases a) simp_all

lemma timersOf_clearTimeout:
  "timersOf sid (clearTimeout h svc) = filter (\<lambda>t. fst t \<noteq> h) (timersOf sid svc)"
  by (auto simp: timersOf_def clearTimeout_def intro: filter_cong)

lemma schedulePoll_present:
  assumes "monitors svc sid = Some m"
  shows "monitors (schedulePoll sid d svc) = (monitors svc)(sid \<mapsto> m\<lparr>timeout := Some (nextHandle svc)\<rparr>)"
    and "timers (schedulePoll sid d svc) =
           (case timeout m of None \<Rightarrow> timers svc | Some h \<Rightarrow> filter (\<lambda>t. fst t \<noteq> h) (timers svc))
             @ [(nextHandle svc, sid, max 0 d)]"
    and "nextHandle (schedulePoll sid d svc) = Suc (nextHandle svc)"
    and "io (schedulePoll sid d svc) = io svc"
  using assms by (auto simp: schedulePoll_def clearTimeout_def Let_def split: option.splits)

lemma schedulePoll_absent:
  "monitors svc sid = None \<Longrightarrow> schedulePoll sid d svc = svc"
  by (simp add: schedulePoll_def)

lemma timersOf_schedulePoll:
  assumes "monitors svc sid = Some m"
  shows "timersOf sid' (schedulePoll sid d svc) =
           (case timeout m of
              None \<Rightarrow> timersOf sid' svc
            | Some h \<Rightarrow> filter (\<lambda>t. fst t \<noteq> h) (timersOf sid' svc))
             @ (if sid' = sid then [(nextHandle svc, sid, max 0 d)] else [])"
  unfolding timersOf_def schedulePoll_present(2) [OF assms]
  by (cases "timeout m") (auto simp: conj_commute)

lemma schedulePoll_timersOf:
  assumes "monitors svc sid = Some m" and "session_timers_ok sid svc"
  shows "timersOf sid (schedulePoll sid d svc) = [(nextHandle svc, sid, max 0 d)]"
proof (cases "timeout m")
  case None
  then have "timersOf sid svc = []"
    using assms by (simp add: session_timers_ok_def)
  then show ?thesis
    using None by (simp add: timersOf_schedulePoll [OF assms(1)])
next
  case (Some h)
  then have "map fst (timersOf sid svc) = [h]"
    using assms by (simp add: session_timers_ok_def)
  then have "filter (\<lambda>t. fst t \<noteq> h) (timersOf sid svc) = []"
    by (cases "timersOf sid svc") auto
  then show ?thesis
    using Some by (simp add: timersOf_schedulePoll [OF assms(1)])
qed

lemma requestImmediateSync_changes:
  "(requestImmediateSync sid d svc \<noteq> svc) = (\<exists>m. monitors svc sid = Some m \<and> \<not> processing m)"
proof (cases "monitors svc sid")
  case None
  then show ?thesis by (simp add: requestImmediateSync_def)
next
  case (Some m)
  have "nextHandle (schedulePoll sid d svc) \<noteq> nextHandle svc"
    using schedulePoll_present(3) [OF Some] by simp
  then have "schedulePoll sid d svc \<noteq> svc" by auto
  then show ?thesis using Some by (simp add: requestImmediateSync_def)
qed

lemma ensure_idem:
  "ensureMonitor cfg sid h z (ensureMonitor cfg sid h z svc) = ensureMonitor cfg sid h z svc"
proof (cases "monitors svc sid")
  case None
  then show ?thesis
    by (cases z) (simp_all add: ensureMonitor_def schedulePoll_def Let_def nullish_None_right)
next
  case (Some m)
  show ?thesis
  proof (cases "timeout m = None \<and> \<not> processing m")
    case True
    then show ?thesis
      using Some
      by (cases m; cases z)
         (simp_all add: ensureMonitor_def schedulePoll_def Let_def nullish_None_right)
  next
    case False
    then show ?thesis
      using Some
      by (cases z) (auto simp add: ensureMonitor_def Let_def nullish_None_right)
  qed
qed

lemma ensureMonitor_absent:
  assumes "monitors svc sid = None"
  shows "monitors (ensureMonitor cfg sid h z svc) =
           (monitors svc)(sid \<mapsto>
              \<lparr>hostId = h, soundZoneId = nullish z (defaultSoundZone cfg),
               timeout = Some (nextHandle svc), processing = False, currentTrackId = None,
               awaitingTrackId = None, requestIssuedAt = None\<rparr>)"
    and "timers (ensureMonitor cfg sid h z svc) = timers svc @ [(nextHandle svc, sid, 0)]"
  using assms
  by (simp_all add: ensureMonitor_def schedulePoll_def Let_def nullish_None_right)

lemma ensureMonitor_present:
  assumes "monitors svc sid = Some m"
  shows "monitors (ensureMonitor cfg sid h z svc) =
           (monitors svc)(sid \<mapsto>
              m\<lparr>hostId := h, soundZoneId := nullish z (soundZoneId m),
                timeout := (if timeout m = None \<and> \<not> processing m
                            then Some (nextHandle svc) else timeout m)\<rparr>)"
    and "timers (ensureMonitor cfg sid h z svc) =
           (if timeout m = None \<and> \<not> processing m
            then timers svc @ [(nextHandle svc, sid, 0)] else timers svc)"
  using assms
  by (cases m; simp add: ensureMonitor_def schedulePoll_def Let_def nullish_None_right)+

text \<open>
  Claim C4, as stated: when a monitor exists, \<open>ensureMonitor\<close> updates its host and its
  target zone to the ones given. It fails when the zone given is null: the monitor of
  zone \<open>Z1\<close> keeps \<open>Z1\<close>.
\<close>

theorem ensureMonitor_null_zone_counterexample:
  "monitors exampleService ''S1'' = Some exampleMonitor
   \<and> soundZoneId exampleMonitor = Some ''Z1''
   \<and> map_option soundZoneId
        (monitors (ensureMonitor exampleConfig ''S1'' ''H2'' None exampleService) ''S1'')
       = Some (Some ''Z1'')
   \<and> map_option soundZoneId
        (monitors (ensureMonitor exampleConfig ''S1'' ''H2'' None exampleService) ''S1'')
       \<noteq> Some None"
  by (simp add: ensureMonitor_def exampleService_def exampleMonitor_def Let_def)

text \<open>
  Claim C4, amended. \<open>ensureMonitor\<close> touches the entry of its session only, so a session
  has one monitor at most. With no monitor, it creates one (zone: the one given, else
  the configured default) and arms a timer of delay 0. With a monitor, it sets the host,
  sets the zone to the one given when that is not null and keeps the zone otherwise, and
  arms a timer of delay 0 if and only if no timer is pending and no pass is running.
  Calling it twice is calling it once.
\<close>

theorem ensureMonitor_effect:
  "(monitors svc sid = None \<longrightarrow>
      monitors (ensureMonitor cfg sid h z svc) =
        (monitors svc)(sid \<mapsto>
           \<lparr>hostId = h, soundZoneId = nullish z (defaultSoundZone cfg),
            timeout = Some (nextHandle svc), processing = False, currentTrackId = None,
            awaitingTrackId = None, requestIssuedAt = None\<rparr>)
      \<and> timers (ensureMonitor cfg sid h z svc) = timers svc @ [(nextHandle svc, sid, 0)])
   \<and> (monitors svc sid = Some m \<longrightarrow>
      monitors (ensureMonitor cfg sid h z svc) =
        (monitors svc)(sid \<mapsto>
           m\<lparr>hostId := h,
             soundZoneId := (case z of Some zone \<Rightarrow> Some zone | None \<Rightarrow> soundZoneId m),
             timeout := (if timeout m = None \<and> \<not> processing m
                         then Some (nextHandle svc) else timeout m)\<rparr>)
      \<and> timers (ensureMonitor cfg sid h z svc) =
          (if timeout m = None \<and> \<not> processing m
           then timers svc @ [(nextHandle svc, sid, 0)] else timers svc))
   \<and> ensureMonitor cfg sid h z (ensureMonitor cfg sid h z svc) = ensureMonitor cfg sid h z svc
   \<and> dom (monitors (ensureMonitor cfg sid h z svc)) = insert sid (dom (monitors svc))"
proof -
  have z: "nullish z b = (case z of Some zone \<Rightarrow> Some zone | None \<Rightarrow> b)" for b :: "string option"
    by (cases z) simp_all
  have d: "dom (monitors (ensureMonitor cfg sid h z svc)) = insert sid (dom (monitors svc))"
  proof (cases "monitors svc sid")
    case None
    then show ?thesis by (simp add: ensureMonitor_absent(1))
  next
    case (Some m')
    then show ?thesis by (simp add: ensureMonitor_present(1))
  qed
  show ?thesis
    using ensureMonitor_absent [of svc sid cfg h z] ensureMonitor_present [of svc sid m cfg h z]
      ensure_idem [of cfg sid h z svc] d
    by (simp add: z)
qed

theorem ensureMonitor_effect_witness:
  "monitors emptyService ''S1'' = None
   \<and> timers (ensureMonitor exampleConfig ''S1'' ''H1'' (Some ''Z1'') emptyService) = [(0, ''S1'', 0)]
   \<and> monitors exampleService ''S1'' = Some exampleMonitor
   \<and> timers (ensureMonitor exampleConfig ''S1'' ''H2'' (Some ''Z2'') exampleService)
       = [(0, ''S1'', 5000)]
   \<and> monitors (ensureMonitor exampleConfig ''S1'' ''H2'' (Some ''Z2'') exampleService) ''S1''
       = Some (exampleMonitor\<lparr>hostId := ''H2'', soundZoneId := Some ''Z2''\<rparr>)"
proof -
  have e: "monitors emptyService ''S1'' = None"
    by (simp add: emptyService_def)
  have x: "monitors exampleService ''S1'' = Some exampleMonitor"
    by (simp add: exampleService_def)
  have t: "timeout exampleMonitor = Some 0"
    by (simp add: exampleMonitor_def)
  have a: "timers (ensureMonitor exampleConfig ''S1'' ''H1'' (Some ''Z1'') emptyService)
      = [(0, ''S1'', 0)]"
    using ensureMonitor_effect
      [of emptyService "''S1''" exampleConfig "''H1''" "Some ''Z1''" exampleMonitor] e
    by (simp add: emptyService_def)
  have b: "timers (ensureMonitor exampleConfig ''S1'' ''H2'' (Some ''Z2'') exampleService)
        = [(0, ''S1'', 5000)]
      \<and> monitors (ensureMonitor exampleConfig ''S1'' ''H2'' (Some ''Z2'') exampleService) ''S1''
        = Some (exampleMonitor\<lparr>hostId := ''H2'', soundZoneId := Some ''Z2''\<rparr>)"
    using ensureMonitor_effect
      [of exampleService "''S1''" exampleConfig "''H2''" "Some ''Z2''" exampleMonitor] x t
    by (simp add: exampleService_def exampleMonitor_def)
  from e x a b show ?thesis by simp
qed

text \<open>
  Claim C9. \<open>requestImmediateSync\<close> changes the service if and only if the session has a
  monitor that is not processing. Then it cancels the timer the monitor names and arms a
  new one with the given delay (at least 0), so that, the session's timers being the one
  its monitor names, exactly the new timer remains. Otherwise nothing changes.
\<close>

theorem requestImmediateSync_rearms:
  "(requestImmediateSync sid d svc \<noteq> svc) = (\<exists>m. monitors svc sid = Some m \<and> \<not> processing m)
   \<and> (monitors svc sid = Some m \<and> \<not> processing m \<longrightarrow>
        monitors (requestImmediateSync sid d svc) =
          (monitors svc)(sid \<mapsto> m\<lparr>timeout := Some (nextHandle svc)\<rparr>)
        \<and> timers (requestImmediateSync sid d svc) =
            (case timeout m of
               None \<Rightarrow> timers svc
             | Some h \<Rightarrow> filter (\<lambda>t. fst t \<noteq> h) (timers svc))
              @ [(nextHandle svc, sid, max 0 d)])
   \<and> (monitors svc sid = Some m \<and> \<not> processing m \<and> session_timers_ok sid svc \<longrightarrow>
        timersOf sid (requestImmediateSync sid d svc) = [(nextHandle svc, sid, max 0 d)]
        \<and> session_timers_ok sid (requestImmediateSync sid d svc))"
proof -
  have a: "requestImmediateSync sid d svc = schedulePoll sid d svc"
    if "monitors svc sid = Some m" "\<not> processing m"
    using that by (simp add: requestImmediateSync_def)
  have b: "session_timers_ok sid (schedulePoll sid d svc)"
    if "monitors svc sid = Some m" "session_timers_ok sid svc"
    using schedulePoll_timersOf [OF that] schedulePoll_present(1) [OF that(1)]
    by (simp add: session_timers_ok_def)
  show ?thesis
    using requestImmediateSync_changes [of sid d svc] a b
      schedulePoll_present(1,2) [of svc sid m d] schedulePoll_timersOf [of svc sid m d]
    by auto
qed

theorem requestImmediateSync_rearms_witness:
  "monitors exampleService ''S1'' = Some exampleMonitor
   \<and> \<not> processing exampleMonitor
   \<and> session_timers_ok ''S1'' exampleService
   \<and> timersOf ''S1'' exampleService = [(0, ''S1'', 5000)]
   \<and> timersOf ''S1'' (requestImmediateSync ''S1'' 0 exampleService) = [(1, ''S1'', 0)]
   \<and> requestImmediateSync ''S1'' 0 emptyService = emptyService
   \<and> requestImmediateSync ''S1'' 0 busyService = busyService"
proof -
  have x: "monitors exampleService ''S1'' = Some exampleMonitor \<and> \<not> processing exampleMonitor
      \<and> session_timers_ok ''S1'' exampleService
      \<and> timersOf ''S1'' exampleService = [(0, ''S1'', 5000)]"
    by (simp add: exampleService_def exampleMonitor_def session_timers_ok_def timersOf_def)
  have a: "timersOf ''S1'' (requestImmediateSync ''S1'' 0 exampleService) = [(1, ''S1'', 0)]"
    using requestImmediateSync_rearms [of "''S1''" 0 exampleService exampleMonitor] x
    by (simp add: exampleService_def)
  have e: "requestImmediateSync ''S1'' 0 emptyService = emptyService"
    using requestImmediateSync_rearms [of "''S1''" 0 emptyService exampleMonitor]
    by (simp add: emptyService_def)
  have b: "requestImmediateSync ''S1'' 0 busyService = busyService"
    using requestImmediateSync_rearms [of "''S1''" 0 busyService exampleMonitor]
    by (simp add: busyService_def)
  from x a e b show ?thesis by simp
qed

subsection \<open>The steps of a pass\<close>

lemma sitesUsed_append: "sitesUsed (xs @ ys) = sitesUsed xs @ sitesUsed ys"
  by (induction xs) (simp_all split: option.splits)

lemma assignContent_sites:
  assumes "assignContent site a b zone content = (r, evs)"
  shows "set (sitesUsed evs) = {site}"
  using assms by (auto simp: assignContent_def split: option.splits)

lemma assignContent_ok:
  assumes "assignContent site a b zone content = (None, evs)"
  shows "a = None \<and> b = None \<and> evs = [SetSoundZoneContent site zone content, Play site zone]"
  using assms by (auto simp: assignContent_def split: option.splits)

lemma confirmAssignment_awaiting:
  "awaitingTrackId (confirmAssignment cur m) =
     (if truthy (awaitingTrackId m) \<and> awaitingTrackId m = cur then None else awaitingTrackId m)"
  by (auto simp: confirmAssignment_def)


lemma confirmAssignment_frame:
  "timeout (confirmAssignment cur m) = timeout m"
  "processing (confirmAssignment cur m) = processing m"
  "hostId (confirmAssignment cur m) = hostId m"
  "soundZoneId (confirmAssignment cur m) = soundZoneId m"
  by (simp_all add: confirmAssignment_def)

lemma detectTransition_ok:
  assumes "detectTransition env sid cur qs m = (Inr (m2, qs2), evs)"
  shows "m2 = m\<lparr>currentTrackId := cur\<rparr>" and "sitesUsed evs = []"
  using assms
  by (auto simp: detectTransition_def split: option.splits if_splits sum.splits)

lemma detectTransition_fail_sites:
  assumes "detectTransition env sid cur qs m = (Inl e, evs)"
  shows "sitesUsed evs = []"
  using assms
  by (auto simp: detectTransition_def split: option.splits if_splits sum.splits)


lemma detectTransition_queue:
  assumes "detectTransition env sid cur qs m = (Inr (m2, qs2), evs)"
  shows "qs2 = qs \<or> pe_refreshQueue env = Inr qs2"
  using assms
  by (auto simp: detectTransition_def split: option.splits if_splits sum.splits)

lemma retryAssignment_frame:
  assumes "retryAssignment env zone cur m = (m3, evs)"
  shows "awaitingTrackId m3 = awaitingTrackId m" and "currentTrackId m3 = currentTrackId m"
    and "set (sitesUsed evs) \<subseteq> {RetrySite}"
    and "awaitingTrackId m = None \<Longrightarrow> m3 = m"
    and "m3 = m \<or> m3 = m\<lparr>requestIssuedAt := Some (pe_now_retried env)\<rparr>"
  using assms
  by (auto simp: retryAssignment_def sitesUsed_append
      split: option.splits if_splits prod.splits dest: assignContent_sites)


lemma assignNext_cases:
  assumes "assignNext cfg env zone cur next m = (m4, evs)"
  shows "m4 = m
       \<or> (\<exists>item. next = Some item \<and> item_spotifyTrackId item \<noteq> []
             \<and> cur \<noteq> Some (item_spotifyTrackId item)
             \<and> awaitingTrackId m \<noteq> Some (item_spotifyTrackId item)
             \<and> m4 = m\<lparr>awaitingTrackId := Some (item_spotifyTrackId item),
                      requestIssuedAt := Some (pe_now_assigned env)\<rparr>
             \<and> evs = [SetSoundZoneContent ForwardSite zone (item_spotifyTrackId item),
                      Play ForwardSite zone])
       \<or> (\<exists>content. next = None \<and> \<not> truthy cur \<and> defaultContentId cfg = Some content
             \<and> content \<noteq> [] \<and> awaitingTrackId m \<noteq> Some content
             \<and> m4 = m\<lparr>awaitingTrackId := Some content,
                      requestIssuedAt := Some (pe_now_assigned env)\<rparr>
             \<and> evs = [SetSoundZoneContent FallbackSite zone content, Play FallbackSite zone])"
  using assms
  by (auto simp: assignNext_def Let_def
      split: option.splits if_splits prod.splits dest: assignContent_ok)

lemma resolveRequester_sites:
  "resolveRequester env sid cur = (r, evs) \<Longrightarrow> sitesUsed evs = []"
  by (auto simp: resolveRequester_def split: option.splits sum.splits if_splits)

lemma broadcast_sites:
  "broadcast env sid qs payload requester = (r, evs) \<Longrightarrow> sitesUsed evs = []"
  by (auto simp: broadcast_def split: option.splits)

text \<open>How a pass body ends: before the steps, in transition detection, or after all steps.\<close>

lemma reconcile_cases:
  assumes "reconcile cfg env sid zone m = (m', evs, out)"
  shows "(m' = m \<and> sitesUsed evs = [] \<and> (\<exists>e. out = Inl e)
          \<and> (\<forall>np. pe_getNowPlaying env = Inr np
                \<longrightarrow> (\<forall>qs0. pe_getQueueWithNext env \<noteq> Inr qs0)))
       \<or> (\<exists>np qs0 e evs2.
             pe_getNowPlaying env = Inr np \<and> pe_getQueueWithNext env = Inr qs0
             \<and> detectTransition env sid (observedTrackId np) qs0
                   (confirmAssignment (observedTrackId np) m) = (Inl e, evs2)
             \<and> m' = confirmAssignment (observedTrackId np) m
             \<and> sitesUsed evs = [] \<and> out = Inl e)
       \<or> (\<exists>np qs0 m2 qs evs2 m3 evs3 evs4.
             pe_getNowPlaying env = Inr np \<and> pe_getQueueWithNext env = Inr qs0
             \<and> detectTransition env sid (observedTrackId np) qs0
                   (confirmAssignment (observedTrackId np) m) = (Inr (m2, qs), evs2)
             \<and> retryAssignment env zone (observedTrackId np) m2 = (m3, evs3)
             \<and> assignNext cfg env zone (observedTrackId np) (nextUp qs) m3 = (m', evs4)
             \<and> sitesUsed evs = sitesUsed evs3 @ sitesUsed evs4
             \<and> set evs4 \<subseteq> set evs)"
proof (cases "pe_getNowPlaying env")
  case (Inl e)
  then show ?thesis using assms by (auto simp add: reconcile_def)
next
  case np: (Inr np)
  show ?thesis
  proof (cases "pe_getQueueWithNext env")
    case (Inl e)
    then show ?thesis using assms np by (auto simp add: reconcile_def)
  next
    case qs0: (Inr qs0)
    let ?cur = "observedTrackId np"
    let ?m1 = "confirmAssignment ?cur m"
    obtain r evs2 where dt: "detectTransition env sid ?cur qs0 ?m1 = (r, evs2)"
      by (cases "detectTransition env sid ?cur qs0 ?m1")
    show ?thesis
    proof (cases r)
      case (Inl e)
      then show ?thesis
        using assms np qs0 dt detectTransition_fail_sites [of env sid ?cur qs0 ?m1 e evs2]
        by (auto simp add: reconcile_def Let_def sitesUsed_append)
    next
      case (Inr p)
      obtain m2 qs where p: "p = (m2, qs)" by (cases p)
      obtain m3 evs3 where ra: "retryAssignment env zone ?cur m2 = (m3, evs3)"
        by (cases "retryAssignment env zone ?cur m2")
      obtain m4 evs4 where an: "assignNext cfg env zone ?cur (nextUp qs) m3 = (m4, evs4)"
        by (cases "assignNext cfg env zone ?cur (nextUp qs) m3")
      have s2: "sitesUsed evs2 = []"
        using dt Inr p detectTransition_ok(2) [of env sid ?cur qs0 ?m1 m2 qs evs2] by simp
      have "m' = m4 \<and> sitesUsed evs = sitesUsed evs3 @ sitesUsed evs4 \<and> set evs4 \<subseteq> set evs"
        using assms np qs0 dt Inr p ra an s2
        by (auto simp: reconcile_def Let_def sitesUsed_append
            split: prod.splits sum.splits option.splits
            dest: resolveRequester_sites broadcast_sites)
      then show ?thesis
        using np qs0 dt Inr p ra an by auto
    qed
  qed
qed

lemma reconcile_frame:
  assumes "reconcile cfg env sid zone m = (m', evs, out)"
  shows "timeout m' = timeout m \<and> processing m' = processing m
       \<and> hostId m' = hostId m \<and> soundZoneId m' = soundZoneId m"
  using reconcile_cases [OF assms]
proof (elim disjE exE conjE)
  assume "m' = m"
  then show ?thesis by simp
next
  fix np
  assume "m' = confirmAssignment (observedTrackId np) m"
  then show ?thesis by (simp add: confirmAssignment_frame)
next
  fix np qs0 m2 qs evs2 m3 evs3 evs4
  assume dt: "detectTransition env sid (observedTrackId np) qs0
                (confirmAssignment (observedTrackId np) m) = (Inr (m2, qs), evs2)"
    and ra: "retryAssignment env zone (observedTrackId np) m2 = (m3, evs3)"
    and an: "assignNext cfg env zone (observedTrackId np) (nextUp qs) m3 = (m', evs4)"
  have 2: "timeout m2 = timeout m \<and> processing m2 = processing m
       \<and> hostId m2 = hostId m \<and> soundZoneId m2 = soundZoneId m"
    using detectTransition_ok(1) [OF dt] by (simp add: confirmAssignment_frame)
  have 3: "timeout m3 = timeout m2 \<and> processing m3 = processing m2
       \<and> hostId m3 = hostId m2 \<and> soundZoneId m3 = soundZoneId m2"
    using retryAssignment_frame(5) [OF ra] by auto
  have 4: "timeout m' = timeout m3 \<and> processing m' = processing m3
       \<and> hostId m' = hostId m3 \<and> soundZoneId m' = soundZoneId m3"
    using assignNext_cases [OF an] by auto
  from 2 3 4 show ?thesis by simp
qed



lemma reconcile_superseded:
  assumes r: "reconcile cfg env sid zone m = (m', evs, out)"
    and ne: "awaitingTrackId m' \<noteq> awaitingTrackId m" and nn: "awaitingTrackId m' \<noteq> None"
  shows "\<exists>t. awaitingTrackId m' = Some t \<and> t \<noteq> []
           \<and> requestIssuedAt m' = Some (pe_now_assigned env)
           \<and> ((assigned ForwardSite zone t evs
                 \<and> (\<exists>qs item. (pe_getQueueWithNext env = Inr qs \<or> pe_refreshQueue env = Inr qs)
                       \<and> nextUp qs = Some item \<and> item_spotifyTrackId item = t))
              \<or> (assigned FallbackSite zone t evs \<and> defaultContentId cfg = Some t))"
  using reconcile_cases [OF r]
proof (elim disjE exE conjE)
  assume "m' = m"
  with ne show ?thesis by simp
next
  fix np
  assume "m' = confirmAssignment (observedTrackId np) m"
  with ne nn show ?thesis by (auto simp: confirmAssignment_awaiting split: if_splits)
next
  fix np qs0 m2 qs evs2 m3 evs3 evs4
  let ?cur = "observedTrackId np"
  assume qs0: "pe_getQueueWithNext env = Inr qs0"
    and dt: "detectTransition env sid ?cur qs0 (confirmAssignment ?cur m) = (Inr (m2, qs), evs2)"
    and ra: "retryAssignment env zone ?cur m2 = (m3, evs3)"
    and an: "assignNext cfg env zone ?cur (nextUp qs) m3 = (m', evs4)"
    and sub: "set evs4 \<subseteq> set evs"
  have 3: "awaitingTrackId m3 = None \<or> awaitingTrackId m3 = awaitingTrackId m"
    using retryAssignment_frame(1) [OF ra] detectTransition_ok(1) [OF dt]
    by (auto simp: confirmAssignment_awaiting split: if_splits)
  have q: "pe_getQueueWithNext env = Inr qs \<or> pe_refreshQueue env = Inr qs"
    using detectTransition_queue [OF dt] qs0 by auto
  from assignNext_cases [OF an] show ?thesis
  proof (elim disjE exE conjE)
    assume "m' = m3"
    with 3 ne nn show ?thesis by auto
  next
    fix item :: QueueItem
    assume "nextUp qs = Some item" "item_spotifyTrackId item \<noteq> []"
      "m' = m3\<lparr>awaitingTrackId := Some (item_spotifyTrackId item),
                requestIssuedAt := Some (pe_now_assigned env)\<rparr>"
      "evs4 = [SetSoundZoneContent ForwardSite zone (item_spotifyTrackId item),
               Play ForwardSite zone]"
    then show ?thesis using sub q by (auto simp: assigned_def)
  next
    fix content
    assume "defaultContentId cfg = Some content" "content \<noteq> []"
      "m' = m3\<lparr>awaitingTrackId := Some content,
                requestIssuedAt := Some (pe_now_assigned env)\<rparr>"
      "evs4 = [SetSoundZoneContent FallbackSite zone content, Play FallbackSite zone]"
    then show ?thesis using sub by (auto simp: assigned_def)
  qed
qed

text \<open>
  A pending assignment is null or a non-empty identifier: a pass keeps it so, and
  \<open>ensureMonitor\<close> creates monitors with none.
\<close>

lemma reconcile_awaiting_truthy:
  assumes r: "reconcile cfg env sid zone m = (m', evs, out)"
    and w: "awaitingTrackId m = None \<or> truthy (awaitingTrackId m)"
  shows "awaitingTrackId m' = None \<or> truthy (awaitingTrackId m')"
proof (cases "awaitingTrackId m' = awaitingTrackId m \<or> awaitingTrackId m' = None")
  case True
  then show ?thesis using w by auto
next
  case False
  then obtain t where "awaitingTrackId m' = Some t" "t \<noteq> []"
    using reconcile_superseded [OF r] by blast
  then show ?thesis by simp
qed


lemma pollSession_runs:
  assumes "monitors svc sid = Some m" and "\<not> processing m" and "io svc"
    and "soundZoneId m = Some zone" and "zone \<noteq> []"
    and "reconcile cfg env sid zone (m\<lparr>processing := True\<rparr>) = (m', evs, out)"
  shows "pollSession cfg env sid svc =
           (finishPass sid
              (schedulePoll sid (case out of Inr d \<Rightarrow> d | Inl e \<Rightarrow> DEFAULT_POLL_INTERVAL_MS)
                 (svc\<lparr>monitors := (monitors svc)(sid \<mapsto> m')\<rparr>)),
            evs @ (case out of Inr d \<Rightarrow> []
                   | Inl e \<Rightarrow> [ConsoleErrorP ''Playback sync error for session'' e]))"
  using assms by (simp add: pollSession_def Let_def split: sum.splits)

lemma finishPass_schedulePoll:
  assumes "monitors svc sid = Some m"
  shows "monitors (finishPass sid (schedulePoll sid d svc)) =
           (monitors svc)(sid \<mapsto> m\<lparr>timeout := Some (nextHandle svc), processing := False\<rparr>)"
    and "timers (finishPass sid (schedulePoll sid d svc)) = timers (schedulePoll sid d svc)"
    and "timersOf sid' (finishPass sid (schedulePoll sid d svc)) = timersOf sid' (schedulePoll sid d svc)"
  using schedulePoll_present(1) [OF assms, of d]
  by (auto simp: finishPass_def timersOf_def)




text \<open>
  Claim C8. A pass whose body throws logs the error, leaves the session's monitor in the
  map with \<open>processing\<close> false, and arms a timer of the default 5000 ms for the session;
  the session's timers being the one its monitor names, that timer is the only one.
\<close>

theorem pollSession_failed_pass_rearms:
  assumes "monitors svc sid = Some m" and "\<not> processing m" and "io svc"
    and "soundZoneId m = Some zone" and "zone \<noteq> []"
    and "reconcile cfg env sid zone (m\<lparr>processing := True\<rparr>) = (m', evs, Inl e)"
  shows "snd (pollSession cfg env sid svc)
           = evs @ [ConsoleErrorP ''Playback sync error for session'' e]
     \<and> monitors (fst (pollSession cfg env sid svc)) sid
           = Some (m'\<lparr>timeout := Some (nextHandle svc), processing := False\<rparr>)
     \<and> (nextHandle svc, sid, 5000) \<in> set (timers (fst (pollSession cfg env sid svc)))
     \<and> (session_timers_ok sid svc \<longrightarrow>
          timersOf sid (fst (pollSession cfg env sid svc)) = [(nextHandle svc, sid, 5000)]
          \<and> session_timers_ok sid (fst (pollSession cfg env sid svc)))"
proof -
  let ?svc1 = "svc\<lparr>monitors := (monitors svc)(sid \<mapsto> m')\<rparr>"
  have p: "pollSession cfg env sid svc =
      (finishPass sid (schedulePoll sid DEFAULT_POLL_INTERVAL_MS ?svc1),
       evs @ [ConsoleErrorP ''Playback sync error for session'' e])"
    using pollSession_runs [OF assms] by simp
  have m1: "monitors ?svc1 sid = Some m'" by simp
  have fr: "timeout m' = timeout m"
    using reconcile_frame [OF assms(6)] by simp
  have mon: "monitors (fst (pollSession cfg env sid svc)) sid
           = Some (m'\<lparr>timeout := Some (nextHandle svc), processing := False\<rparr>)"
    unfolding p using finishPass_schedulePoll(1) [OF m1] by simp
  have tm: "(nextHandle svc, sid, 5000) \<in> set (timers (fst (pollSession cfg env sid svc)))"
    unfolding p using finishPass_schedulePoll(2) [OF m1] schedulePoll_present(2) [OF m1]
    by (simp add: DEFAULT_POLL_INTERVAL_MS_def)
  have inv: "timersOf sid (fst (pollSession cfg env sid svc)) = [(nextHandle svc, sid, 5000)]
          \<and> session_timers_ok sid (fst (pollSession cfg env sid svc))"
    if ok: "session_timers_ok sid svc"
  proof -
    have ok1: "session_timers_ok sid ?svc1"
      using ok assms(1) fr
      by (auto simp: session_timers_ok_def timersOf_def split: option.splits)
    have t: "timersOf sid (fst (pollSession cfg env sid svc)) = [(nextHandle svc, sid, 5000)]"
      unfolding p using finishPass_schedulePoll(3) [OF m1] schedulePoll_timersOf [OF m1 ok1]
      by (simp add: DEFAULT_POLL_INTERVAL_MS_def)
    then show ?thesis using mon by (simp add: session_timers_ok_def)
  qed
  from p mon tm inv show ?thesis by simp
qed

theorem pollSession_failed_pass_rearms_witness:
  "monitors awaitingService ''S1'' = Some awaitingMonitor
   \<and> \<not> processing awaitingMonitor \<and> io awaitingService
   \<and> soundZoneId awaitingMonitor = Some ''Z1''
   \<and> reconcile exampleConfig failingPollEnv ''S1'' ''Z1'' (awaitingMonitor\<lparr>processing := True\<rparr>)
       = (awaitingMonitor\<lparr>processing := True\<rparr>, [GetNowPlaying ''Z1''],
          Inl (OtherError ''network''))
   \<and> session_timers_ok ''S1'' awaitingService
   \<and> snd (pollSession exampleConfig failingPollEnv ''S1'' awaitingService)
       = [GetNowPlaying ''Z1'',
          ConsoleErrorP ''Playback sync error for session'' (OtherError ''network'')]
   \<and> monitors (fst (pollSession exampleConfig failingPollEnv ''S1'' awaitingService)) ''S1''
       = Some (awaitingMonitor\<lparr>timeout := Some 1\<rparr>)
   \<and> timersOf ''S1'' (fst (pollSession exampleConfig failingPollEnv ''S1'' awaitingService))
       = [(1, ''S1'', 5000)]"
proof -
  have h: "monitors awaitingService ''S1'' = Some awaitingMonitor
      \<and> \<not> processing awaitingMonitor \<and> io awaitingService
      \<and> soundZoneId awaitingMonitor = Some ''Z1'' \<and> ''Z1'' \<noteq> []
      \<and> session_timers_ok ''S1'' awaitingService \<and> nextHandle awaitingService = 1"
    by (simp add: awaitingService_def awaitingMonitor_def session_timers_ok_def timersOf_def)
  have r: "reconcile exampleConfig failingPollEnv ''S1'' ''Z1'' (awaitingMonitor\<lparr>processing := True\<rparr>)
       = (awaitingMonitor\<lparr>processing := True\<rparr>, [GetNowPlaying ''Z1''],
          Inl (OtherError ''network''))"
    by (simp add: reconcile_def failingPollEnv_def examplePollEnv_def)
  have "snd (pollSession exampleConfig failingPollEnv ''S1'' awaitingService)
       = [GetNowPlaying ''Z1'',
          ConsoleErrorP ''Playback sync error for session'' (OtherError ''network'')]
   \<and> monitors (fst (pollSession exampleConfig failingPollEnv ''S1'' awaitingService)) ''S1''
       = Some (awaitingMonitor\<lparr>timeout := Some 1\<rparr>)
   \<and> timersOf ''S1'' (fst (pollSession exampleConfig failingPollEnv ''S1'' awaitingService))
       = [(1, ''S1'', 5000)]"
    using pollSession_failed_pass_rearms
      [of awaitingService "''S1''" awaitingMonitor "''Z1''" exampleConfig failingPollEnv
          "awaitingMonitor\<lparr>processing := True\<rparr>" "[GetNowPlaying ''Z1'']" "OtherError ''network''"]
      h r
    by (simp add: awaitingMonitor_def)
  with h r show ?thesis by simp
qed

subsection \<open>The add handler and the ledger\<close>

lemma resolveSessionActor_quiet:
  "ledgerCalls (snd (resolveSessionActor cfg svc req sid)) = []
   \<and> filter isQueueWrite (snd (resolveSessionActor cfg svc req sid)) = []"
  by (auto simp: resolveSessionActor_def ledgerCalls_def Let_def
      split: sum.splits option.splits)


lemma ledgerCalls_append: "ledgerCalls (xs @ ys) = ledgerCalls xs @ ledgerCalls ys"
  by (simp add: ledgerCalls_def)

lemma ledgerCalls_Cons:
  "ledgerCalls (e # evs) = (if isSpend e \<or> isCredit e then e # ledgerCalls evs else ledgerCalls evs)"
  by (simp add: ledgerCalls_def)

lemma ledgerCalls_Nil: "ledgerCalls [] = []"
  by (simp add: ledgerCalls_def)

lemma emitQueueState_quiet:
  "ledgerCalls (snd (emitQueueState svc req sid)) = []
   \<and> filter isQueueWrite (snd (emitQueueState svc req sid)) = []"
  by (auto simp: emitQueueState_def ledgerCalls_def split: sum.splits)

lemma processAdd_ledger:
  "ledgerCalls (snd (processAdd svc req sid trackId actor)) = []"
  using emitQueueState_quiet [of svc req sid]
  by (auto simp: processAdd_def ledgerCalls_Cons ledgerCalls_append ledgerCalls_Nil
      split: sum.splits prod.splits)



lemma finishAdd_eq:
  "finishAdd svc req sid trackId ctx guestCreditState spentInfo =
     (case fst (processAdd svc req sid trackId (ctx_actor ctx)) of
        Inl e \<Rightarrow>
          (fst (addCatch svc spentInfo e),
           snd (processAdd svc req sid trackId (ctx_actor ctx)) @ snd (addCatch svc spentInfo e))
      | Inr (queueItem, state) \<Rightarrow>
          ((200, AddPayload queueItem (ctx_role ctx) state guestCreditState),
           snd (processAdd svc req sid trackId (ctx_actor ctx))))"
  by (auto simp: finishAdd_def split: prod.splits sum.splits)


lemma guest_resolved:
  "resolveSessionActor exampleConfig exampleServices guestRequest ''S1'' = (Inr (Inr guestContext), [])"
  "resolveSessionActor exampleConfig duplicateTrackServices guestRequest ''S1'' = (Inr (Inr guestContext), [])"
  "resolveSessionActor exampleConfig creditErrorQueueServices guestRequest ''S1'' = (Inr (Inr guestContext), [])"
  "resolveSessionActor exampleConfig insufficientServices guestRequest ''S1'' = (Inr (Inr guestContext), [])"
  "resolveSessionActor exampleConfig brokenRefundServices guestRequest ''S1'' = (Inr (Inr guestContext), [])"
  by (simp_all add: resolveSessionActor_def exampleServices_def duplicateTrackServices_def
      creditErrorQueueServices_def insufficientServices_def brokenRefundServices_def
      guestRequest_def guestContext_def exampleSession_def exampleGuest_def exampleConfig_def
      or_else_def Let_def)





subsection \<open>The remove handler and the ledger\<close>

lemma resolveGuestClerkUserId_included:
  assumes "item_addedByGuest queueItem = Some g" and "guest_clerkUserId g = Some uid"
    and "uid \<noteq> []"
  shows "resolveGuestClerkUserId svc queueItem = (Some uid, [])"
  using assms by (simp add: resolveGuestClerkUserId_def)

lemma resolveGuestClerkUserId_lookup:
  assumes "item_addedByGuest queueItem = None" and "item_addedByGuestId queueItem = Some gid"
    and "gid \<noteq> []" and "getGuestById svc gid = Inr (Some g)"
  shows "resolveGuestClerkUserId svc queueItem = (guest_clerkUserId g, [])"
  using assms by (simp add: resolveGuestClerkUserId_def)









lemma host_resolved:
  "resolveSessionActor exampleConfig exampleServices hostRequest ''S1'' = (Inr (Inr hostContext), [])"
  "resolveSessionActor exampleConfig refundFailingServices hostRequest ''S1''
     = (Inr (Inr hostContext), [])"
  by (simp_all add: resolveSessionActor_def exampleServices_def refundFailingServices_def
      hostRequest_def hostContext_def exampleSession_def exampleConfig_def or_else_def Let_def)



subsection \<open>The vote handler and the ledger\<close>

lemma vote_resolved:
  assumes "voteType = 1 \<or> voteType = - 1"
    and "getQueueItemWithSession svc qid = Inr (Some queueItem)"
    and "resolveSessionActor cfg svc req (item_sessionId queueItem) = (Inr (Inr ctx), evs0)"
    and "voteIdentity svc req ctx = Inr clerkUserId"
  shows "vote costs cfg svc req qid voteType =
           (fst (voteAs costs svc req qid (item_sessionId queueItem) (ctx_actor ctx) voteType
                   clerkUserId),
            evs0 @ snd (voteAs costs svc req qid (item_sessionId queueItem) (ctx_actor ctx)
                          voteType clerkUserId))"
  using assms by (auto simp: vote_def split: prod.splits)

lemma voteIdentity_host:
  "ctx_role ctx = RoleHost \<Longrightarrow> voteIdentity svc req ctx = Inr (req_authUserId req)"
  by (simp add: voteIdentity_def)

lemma voteIdentity_guest:
  assumes "ctx_role ctx = RoleGuest" and "ctx_actor ctx = GuestActor gid" and "gid \<noteq> []"
    and "getGuestById svc gid = Inr (Some g)"
  shows "voteIdentity svc req ctx = Inr (guest_clerkUserId g)"
  using assms by (simp add: voteIdentity_def)

lemma beforeChange_identified:
  assumes "uid \<noteq> []"
  shows "beforeChange costs svc req (Some uid) intent =
     (if intent \<noteq> ''add'' then (Inr (None, None), [])
      else (case spendCredits svc uid (VOTE_REACTION_COST costs) of
              Inl e \<Rightarrow> (Inl e, [SpendCredits uid (VOTE_REACTION_COST costs) False])
            | Inr credits \<Rightarrow>
                (Inr (Some (VOTE_REACTION_COST costs, uid),
                      if req_authUserId req = Some uid then Some credits else None),
                 [SpendCredits uid (VOTE_REACTION_COST costs) True])))"
  using assms by (simp add: beforeChange_def)

lemma voteCatch_spends: "filter isSpend (snd (voteCatch svc spent e)) = []"
  by (auto simp: voteCatch_def Let_def split: option.splits sum.splits err.splits)

lemma finishVote_quiet:
  "ledgerCalls (snd (finishVote svc req sid action credits)) = []"
  using emitQueueState_quiet [of svc req sid]
  by (auto simp: finishVote_def voteCatch_def ledgerCalls_append ledgerCalls_Cons ledgerCalls_Nil
      split: prod.splits sum.splits err.splits)

lemma filter_isSpend_ledgerCalls: "filter isSpend (ledgerCalls evs) = filter isSpend evs"
  by (induction evs) (auto simp: ledgerCalls_def)

lemma finishVote_spends: "filter isSpend (snd (finishVote svc req sid action credits)) = []"
  using finishVote_quiet [of svc req sid action credits] filter_isSpend_ledgerCalls
  by (metis filter.simps(1))

lemma voteCatch_spends_of:
  "voteCatch svc spent e = (response, evs) \<Longrightarrow> filter isSpend evs = []"
  using voteCatch_spends [of svc spent e] by simp

lemma finishVote_spends_of:
  "finishVote svc req sid action credits = (response, evs) \<Longrightarrow> filter isSpend evs = []"
  using finishVote_spends [of svc req sid action credits] by simp

text \<open>The spends of a vote by an identified voter: the callback's, and no other.\<close>

lemma voteAs_spends:
  assumes "uid \<noteq> []"
  shows "filter isSpend (snd (voteAs costs svc req qid sid actor voteType (Some uid))) =
     (case storeVote svc qid actor voteType of
        NoCallback r \<Rightarrow> []
      | Decide intent r \<Rightarrow>
          if intent = ''add''
          then [SpendCredits uid (VOTE_REACTION_COST costs)
                  (\<not> isl (spendCredits svc uid (VOTE_REACTION_COST costs)))]
          else [])"
proof (cases "storeVote svc qid actor voteType")
  case (NoCallback r)
  then show ?thesis
    using assms
    by (auto simp: voteAs_def queueServiceVote_def Let_def
        split: sum.splits prod.splits
        dest: voteCatch_spends_of finishVote_spends_of)
next
  case (Decide intent r)
  show ?thesis
  proof (cases "intent = ''add''")
    case False
    then show ?thesis
      using assms Decide
      by (auto simp: voteAs_def queueServiceVote_def beforeChange_identified Let_def
          split: sum.splits prod.splits
          dest: voteCatch_spends_of finishVote_spends_of)
  next
    case True
    show ?thesis
    proof (cases "spendCredits svc uid (VOTE_REACTION_COST costs)")
      case (Inl e)
      then show ?thesis
        using assms Decide True
        by (auto simp: voteAs_def queueServiceVote_def beforeChange_identified Let_def
            split: prod.splits dest: voteCatch_spends_of)
    next
      case (Inr credits)
      then show ?thesis
        using assms Decide True
        by (auto simp: voteAs_def queueServiceVote_def beforeChange_identified Let_def
            split: sum.splits prod.splits
            dest: voteCatch_spends_of finishVote_spends_of)
    qed
  qed
qed

lemma ledgerDelta_ledgerCalls: "ledgerDelta uid (ledgerCalls evs) = ledgerDelta uid evs"
  by (induction uid evs rule: ledgerDelta.induct) (simp_all add: ledgerCalls_def)

lemma ledgerDelta_append: "ledgerDelta uid (xs @ ys) = ledgerDelta uid xs + ledgerDelta uid ys"
  by (induction uid xs rule: ledgerDelta.induct) simp_all

lemma finishVote_ledger_of:
  "finishVote svc req sid action credits = (response, evs) \<Longrightarrow> ledgerCalls evs = []"
  using finishVote_quiet [of svc req sid action credits] by simp

lemma voteCatch_unspent_of:
  "voteCatch svc None e = (response, evs) \<Longrightarrow> ledgerCalls evs = []"
  by (auto simp: voteCatch_def ledgerCalls_def split: err.splits)

text \<open>The store's vote returned, reporting a removal: the credit is issued.\<close>

lemma voteAs_removed_credit:
  assumes "uid \<noteq> []"
    and "fst (queueServiceVote (storeVote svc qid actor voteType)
                (beforeChange costs svc req (Some uid))) = Inr ''removed''"
  shows "AddCredits uid (VOTE_REACTION_COST costs)
           (\<not> isl (addCredits svc uid (VOTE_REACTION_COST costs)))
         \<in> set (snd (voteAs costs svc req qid sid actor voteType (Some uid)))"
  using assms
  by (cases "queueServiceVote (storeVote svc qid actor voteType)
               (beforeChange costs svc req (Some uid))";
      cases "addCredits svc uid (VOTE_REACTION_COST costs)")
     (auto simp: voteAs_def Let_def split: prod.splits)

lemma voteAs_added_ledger:
  assumes "uid \<noteq> []"
    and "storeVote svc qid actor voteType = Decide ''add'' (Inr ''added'')"
    and "\<not> isl (spendCredits svc uid (VOTE_REACTION_COST costs))"
  shows "ledgerCalls (snd (voteAs costs svc req qid sid actor voteType (Some uid)))
           = [SpendCredits uid (VOTE_REACTION_COST costs) True]"
  using assms
  by (cases "spendCredits svc uid (VOTE_REACTION_COST costs)")
     (auto simp: voteAs_def queueServiceVote_def beforeChange_identified Let_def
        ledgerCalls_Cons ledgerCalls_append ledgerCalls_Nil
        split: prod.splits dest: finishVote_ledger_of)

lemma voteAs_removed_ledger:
  assumes "uid \<noteq> []"
    and "storeVote svc qid actor voteType = Decide intent (Inr ''removed'')"
    and "intent \<noteq> ''add''"
  shows "ledgerCalls (snd (voteAs costs svc req qid sid actor voteType (Some uid)))
           = [AddCredits uid (VOTE_REACTION_COST costs)
                (\<not> isl (addCredits svc uid (VOTE_REACTION_COST costs)))]"
  using assms
  by (cases "addCredits svc uid (VOTE_REACTION_COST costs)")
     (auto simp: voteAs_def queueServiceVote_def beforeChange_identified Let_def
        ledgerCalls_Cons ledgerCalls_append ledgerCalls_Nil
        split: prod.splits dest: finishVote_ledger_of voteCatch_unspent_of)

lemma voteAs_add_shape:
  assumes "uid \<noteq> []" and "storeVote svc qid actor voteType = Decide ''add'' r"
  shows "\<exists>rest. snd (voteAs costs svc req qid sid actor voteType (Some uid))
           = VoteCall qid actor voteType
             # SpendCredits uid (VOTE_REACTION_COST costs)
                 (\<not> isl (spendCredits svc uid (VOTE_REACTION_COST costs)))
             # rest"
  using assms
  by (cases "spendCredits svc uid (VOTE_REACTION_COST costs)")
     (auto simp: voteAs_def queueServiceVote_def beforeChange_identified Let_def
        split: prod.splits sum.splits)

lemma addCatch_unspent: "ledgerCalls (snd (addCatch svc None e)) = []"
  by (cases e) (simp_all add: addCatch_def ledgerCalls_def)

lemma finishAdd_unspent: "ledgerCalls (snd (finishAdd svc req sid trackId ctx None None)) = []"
  using processAdd_ledger [of svc req sid trackId "ctx_actor ctx"]
  by (auto simp: finishAdd_eq ledgerCalls_append addCatch_unspent split: sum.splits)

lemma addAs_host_no_ledger:
  assumes "ctx_role ctx = RoleHost"
  shows "ledgerCalls (snd (addAs costs svc req sid trackId content ctx)) = []"
  using assms finishAdd_unspent [of svc req sid trackId ctx]
  by (auto simp: addAs_def Let_def ledgerCalls_Cons ledgerCalls_Nil ledgerCalls_append
      split: prod.splits)

lemma add_host_no_ledger:
  assumes "resolveSessionActor cfg svc req sid = (Inr (Inr ctx), evs0)"
    and "ctx_role ctx = RoleHost"
  shows "ledgerCalls (snd (add costs cfg svc req sid body)) = []"
proof -
  have q0: "ledgerCalls evs0 = []"
    using resolveSessionActor_quiet [of cfg svc req sid] assms(1) by simp
  have as: "ledgerCalls evs = []"
    if "addAs costs svc req sid trackId content ctx = (response, evs)"
    for trackId content response evs
    using addAs_host_no_ledger [OF assms(2), of costs svc req sid trackId content] that by simp
  show ?thesis
    using assms q0
    by (auto simp: add_def ledgerCalls_Nil ledgerCalls_append
        split: option.splits prod.splits dest: as)
qed

lemma removed_resolved:
  "resolveSessionActor exampleConfig removedVoteServices guestRequest ''S1''
     = (Inr (Inr guestContext), [])"
  by (simp add: resolveSessionActor_def exampleServices_def removedVoteServices_def
      guestRequest_def guestContext_def exampleSession_def exampleGuest_def exampleConfig_def
      or_else_def Let_def)

text \<open>
  Claim C2. For a vote by a voter whose ledger identity resolves: the handler spends the
  vote cost exactly when the store calls \<open>beforeChange\<close> with the intent \<open>add\<close>, the spend
  being the first effect after the store's vote is entered; no other intent and no vote
  without callback is charged. When the store's vote returns reporting \<open>removed\<close>, a credit
  of the vote cost to the same identity is issued. An accepted charge for an added
  reaction moves the balance by minus the cost, and an accepted credit for a removal
  that the store did not decide as an add moves it by plus the cost: together, zero.
\<close>

theorem vote_charge_and_refund:
  assumes "voteType = 1 \<or> voteType = - 1"
    and "getQueueItemWithSession svc qid = Inr (Some queueItem)"
    and "resolveSessionActor cfg svc req (item_sessionId queueItem) = (Inr (Inr ctx), evs0)"
    and "voteIdentity svc req ctx = Inr (Some uid)" and "uid \<noteq> []"
  shows
    "filter isSpend (snd (vote costs cfg svc req qid voteType)) =
       (case storeVote svc qid (ctx_actor ctx) voteType of
          NoCallback r \<Rightarrow> []
        | Decide intent r \<Rightarrow>
            if intent = ''add''
            then [SpendCredits uid (VOTE_REACTION_COST costs)
                    (\<not> isl (spendCredits svc uid (VOTE_REACTION_COST costs)))]
            else [])
     \<and> (\<forall>r. storeVote svc qid (ctx_actor ctx) voteType = Decide ''add'' r \<longrightarrow>
          (\<exists>rest. snd (vote costs cfg svc req qid voteType)
             = evs0 @ VoteCall qid (ctx_actor ctx) voteType
                 # SpendCredits uid (VOTE_REACTION_COST costs)
                     (\<not> isl (spendCredits svc uid (VOTE_REACTION_COST costs)))
                 # rest))
     \<and> (fst (queueServiceVote (storeVote svc qid (ctx_actor ctx) voteType)
                (beforeChange costs svc req (Some uid))) = Inr ''removed'' \<longrightarrow>
          AddCredits uid (VOTE_REACTION_COST costs)
            (\<not> isl (addCredits svc uid (VOTE_REACTION_COST costs)))
          \<in> set (snd (vote costs cfg svc req qid voteType)))
     \<and> (storeVote svc qid (ctx_actor ctx) voteType = Decide ''add'' (Inr ''added'')
          \<and> \<not> isl (spendCredits svc uid (VOTE_REACTION_COST costs)) \<longrightarrow>
          ledgerCalls (snd (vote costs cfg svc req qid voteType))
            = [SpendCredits uid (VOTE_REACTION_COST costs) True]
          \<and> ledgerDelta uid (snd (vote costs cfg svc req qid voteType))
            = - VOTE_REACTION_COST costs)
     \<and> (\<forall>intent. storeVote svc qid (ctx_actor ctx) voteType = Decide intent (Inr ''removed'')
          \<and> intent \<noteq> ''add''
          \<and> \<not> isl (addCredits svc uid (VOTE_REACTION_COST costs)) \<longrightarrow>
          ledgerCalls (snd (vote costs cfg svc req qid voteType))
            = [AddCredits uid (VOTE_REACTION_COST costs) True]
          \<and> ledgerDelta uid (snd (vote costs cfg svc req qid voteType))
            = VOTE_REACTION_COST costs)"
proof -
  let ?vc = "VOTE_REACTION_COST costs"
  let ?run = "vote costs cfg svc req qid voteType"
  let ?as = "voteAs costs svc req qid (item_sessionId queueItem) (ctx_actor ctx) voteType (Some uid)"
  have run: "?run = (fst ?as, evs0 @ snd ?as)"
    using vote_resolved [OF assms(1-4)] .
  have q0: "ledgerCalls evs0 = []"
    using resolveSessionActor_quiet [of cfg svc req "item_sessionId queueItem"] assms(3) by simp
  then have s0: "filter isSpend evs0 = []"
    using filter_isSpend_ledgerCalls [of evs0] by simp
  have a: "filter isSpend (snd ?run) =
       (case storeVote svc qid (ctx_actor ctx) voteType of
          NoCallback r \<Rightarrow> []
        | Decide intent r \<Rightarrow>
            if intent = ''add''
            then [SpendCredits uid ?vc (\<not> isl (spendCredits svc uid ?vc))]
            else [])"
    unfolding run using s0 voteAs_spends [OF assms(5), of costs svc req qid] by simp
  have b: "\<exists>rest. snd ?run = evs0 @ VoteCall qid (ctx_actor ctx) voteType
                 # SpendCredits uid ?vc (\<not> isl (spendCredits svc uid ?vc)) # rest"
    if "storeVote svc qid (ctx_actor ctx) voteType = Decide ''add'' r" for r
    unfolding run using voteAs_add_shape [OF assms(5) that, of costs req] by auto
  have c: "AddCredits uid ?vc (\<not> isl (addCredits svc uid ?vc)) \<in> set (snd ?run)"
    if "fst (queueServiceVote (storeVote svc qid (ctx_actor ctx) voteType)
                (beforeChange costs svc req (Some uid))) = Inr ''removed''"
    unfolding run using voteAs_removed_credit [OF assms(5) that] by simp
  have d: "ledgerCalls (snd ?run) = [SpendCredits uid ?vc True]
          \<and> ledgerDelta uid (snd ?run) = - ?vc"
    if "storeVote svc qid (ctx_actor ctx) voteType = Decide ''add'' (Inr ''added'')"
      "\<not> isl (spendCredits svc uid ?vc)"
  proof -
    have l: "ledgerCalls (snd ?run) = [SpendCredits uid ?vc True]"
      unfolding run using q0 voteAs_added_ledger [OF assms(5) that]
      by (simp add: ledgerCalls_append)
    then show ?thesis
      using ledgerDelta_ledgerCalls [of uid "snd ?run"] by simp
  qed
  have e: "ledgerCalls (snd ?run) = [AddCredits uid ?vc True]
          \<and> ledgerDelta uid (snd ?run) = ?vc"
    if "storeVote svc qid (ctx_actor ctx) voteType = Decide intent (Inr ''removed'')"
      "intent \<noteq> ''add''" "\<not> isl (addCredits svc uid ?vc)" for intent
  proof -
    have l: "ledgerCalls (snd ?run) = [AddCredits uid ?vc True]"
      unfolding run using q0 voteAs_removed_ledger [OF assms(5) that(1,2)] that(3)
      by (simp add: ledgerCalls_append)
    then show ?thesis
      using ledgerDelta_ledgerCalls [of uid "snd ?run"] by simp
  qed
  from a b c d e show ?thesis by blast
qed

theorem vote_charge_and_refund_witness:
  "getQueueItemWithSession exampleServices ''Q1'' = Inr (Some exampleItemWithSession)
   \<and> resolveSessionActor exampleConfig exampleServices guestRequest ''S1''
       = (Inr (Inr guestContext), [])
   \<and> voteIdentity exampleServices guestRequest guestContext = Inr (Some ''u1'')
   \<and> storeVote exampleServices ''Q1'' (ctx_actor guestContext) 1 = Decide ''add'' (Inr ''added'')
   \<and> ledgerCalls (snd (vote exampleCosts exampleConfig exampleServices guestRequest ''Q1'' 1))
       = [SpendCredits ''u1'' 1 True]
   \<and> storeVote removedVoteServices ''Q1'' (ctx_actor guestContext) (- 1)
       = Decide ''remove'' (Inr ''removed'')
   \<and> ledgerCalls (snd (vote exampleCosts exampleConfig removedVoteServices guestRequest ''Q1'' (- 1)))
       = [AddCredits ''u1'' 1 True]
   \<and> ledgerDelta ''u1'' (snd (vote exampleCosts exampleConfig exampleServices guestRequest ''Q1'' 1))
       + ledgerDelta ''u1''
           (snd (vote exampleCosts exampleConfig removedVoteServices guestRequest ''Q1'' (- 1)))
       = 0"
proof -
  have s: "item_sessionId exampleItemWithSession = ''S1''"
    and n: "''u1'' \<noteq> []" and c: "VOTE_REACTION_COST exampleCosts = 1"
    and t1: "(1::int) = 1 \<or> (1::int) = - 1" and t2: "(- 1::int) = 1 \<or> (- 1::int) = - 1"
    by (simp_all add: exampleItemWithSession_def exampleCosts_def)
  have a1: "getQueueItemWithSession exampleServices ''Q1'' = Inr (Some exampleItemWithSession)"
    and a2: "voteIdentity exampleServices guestRequest guestContext = Inr (Some ''u1'')"
    and a3: "storeVote exampleServices ''Q1'' (ctx_actor guestContext) 1
              = Decide ''add'' (Inr ''added'')"
    and a4: "\<not> isl (spendCredits exampleServices ''u1'' (VOTE_REACTION_COST exampleCosts))"
    by (simp_all add: exampleServices_def voteIdentity_def guestContext_def exampleGuest_def)
  have b1: "getQueueItemWithSession removedVoteServices ''Q1'' = Inr (Some exampleItemWithSession)"
    and b2: "voteIdentity removedVoteServices guestRequest guestContext = Inr (Some ''u1'')"
    and b3: "storeVote removedVoteServices ''Q1'' (ctx_actor guestContext) (- 1)
              = Decide ''remove'' (Inr ''removed'')"
    and b4: "\<not> isl (addCredits removedVoteServices ''u1'' (VOTE_REACTION_COST exampleCosts))"
    and b5: "''remove'' \<noteq> ''add''"
    by (simp_all add: removedVoteServices_def exampleServices_def voteIdentity_def
        guestContext_def exampleGuest_def)
  have r1: "resolveSessionActor exampleConfig exampleServices guestRequest
              (item_sessionId exampleItemWithSession) = (Inr (Inr guestContext), [])"
    using guest_resolved(1) s by simp
  have r2: "resolveSessionActor exampleConfig removedVoteServices guestRequest
              (item_sessionId exampleItemWithSession) = (Inr (Inr guestContext), [])"
    using removed_resolved s by simp
  have first: "ledgerCalls (snd (vote exampleCosts exampleConfig exampleServices guestRequest ''Q1'' 1))
         = [SpendCredits ''u1'' 1 True]
       \<and> ledgerDelta ''u1'' (snd (vote exampleCosts exampleConfig exampleServices guestRequest ''Q1'' 1))
         = - 1"
    using vote_charge_and_refund [OF t1 a1 r1 a2 n, of exampleCosts] a3 a4 c by simp
  have second: "ledgerCalls (snd (vote exampleCosts exampleConfig removedVoteServices guestRequest
           ''Q1'' (- 1))) = [AddCredits ''u1'' 1 True]
       \<and> ledgerDelta ''u1'' (snd (vote exampleCosts exampleConfig removedVoteServices guestRequest
           ''Q1'' (- 1))) = 1"
    using vote_charge_and_refund [OF t2 b1 r2 b2 n, of exampleCosts] b3 b4 b5 c by simp
  from a1 guest_resolved(1) a2 a3 b3 first second show ?thesis by simp
qed

text \<open>
  Claim C10. A vote whose decided intent is \<open>add\<close> is charged to the voter's identity
  first of all ledger calls, for the host (identity: the authenticated user of the
  request) as for a guest (identity: the guest record's user). An add by the host makes
  no ledger call at all.
\<close>

theorem vote_charges_host_and_guest:
  assumes "voteType = 1 \<or> voteType = - 1"
    and "getQueueItemWithSession svc qid = Inr (Some queueItem)"
    and "resolveSessionActor cfg svc req (item_sessionId queueItem) = (Inr (Inr ctx), evs0)"
    and "storeVote svc qid (ctx_actor ctx) voteType = Decide ''add'' r"
    and "uid \<noteq> []"
  shows
    "(ctx_role ctx = RoleHost \<and> req_authUserId req = Some uid \<longrightarrow>
        (\<exists>rest. ledgerCalls (snd (vote costs cfg svc req qid voteType))
           = SpendCredits uid (VOTE_REACTION_COST costs)
               (\<not> isl (spendCredits svc uid (VOTE_REACTION_COST costs))) # rest))
     \<and> (\<forall>gid g. ctx_role ctx = RoleGuest \<and> ctx_actor ctx = GuestActor gid \<and> gid \<noteq> []
           \<and> getGuestById svc gid = Inr (Some g) \<and> guest_clerkUserId g = Some uid \<longrightarrow>
        (\<exists>rest. ledgerCalls (snd (vote costs cfg svc req qid voteType))
           = SpendCredits uid (VOTE_REACTION_COST costs)
               (\<not> isl (spendCredits svc uid (VOTE_REACTION_COST costs))) # rest))
     \<and> (\<forall>sid body hostCtx evs. resolveSessionActor cfg svc req sid = (Inr (Inr hostCtx), evs)
           \<and> ctx_role hostCtx = RoleHost \<longrightarrow>
        ledgerCalls (snd (add costs cfg svc req sid body)) = [])"
proof -
  let ?vc = "VOTE_REACTION_COST costs"
  let ?run = "vote costs cfg svc req qid voteType"
  have q0: "ledgerCalls evs0 = []"
    using resolveSessionActor_quiet [of cfg svc req "item_sessionId queueItem"] assms(3) by simp
  have charged: "\<exists>rest. ledgerCalls (snd ?run)
           = SpendCredits uid ?vc (\<not> isl (spendCredits svc uid ?vc)) # rest"
    if ident: "voteIdentity svc req ctx = Inr (Some uid)"
  proof -
    obtain rest where "snd (voteAs costs svc req qid (item_sessionId queueItem) (ctx_actor ctx)
                         voteType (Some uid))
           = VoteCall qid (ctx_actor ctx) voteType
             # SpendCredits uid ?vc (\<not> isl (spendCredits svc uid ?vc)) # rest"
      using voteAs_add_shape [OF assms(5) assms(4), of costs req "item_sessionId queueItem"]
      by blast
    then show ?thesis
      using vote_resolved [OF assms(1-3) ident, of costs] q0
      by (simp add: ledgerCalls_append ledgerCalls_Cons)
  qed
  have h: "\<exists>rest. ledgerCalls (snd ?run)
           = SpendCredits uid ?vc (\<not> isl (spendCredits svc uid ?vc)) # rest"
    if "ctx_role ctx = RoleHost" "req_authUserId req = Some uid"
    using charged voteIdentity_host [OF that(1), of svc req] that(2) by simp
  have g: "\<exists>rest. ledgerCalls (snd ?run)
           = SpendCredits uid ?vc (\<not> isl (spendCredits svc uid ?vc)) # rest"
    if "ctx_role ctx = RoleGuest" "ctx_actor ctx = GuestActor gid" "gid \<noteq> []"
      "getGuestById svc gid = Inr (Some g)" "guest_clerkUserId g = Some uid" for gid g
    using charged voteIdentity_guest [OF that(1-4), of req] that(5) by simp
  have a: "ledgerCalls (snd (add costs cfg svc req sid body)) = []"
    if "resolveSessionActor cfg svc req sid = (Inr (Inr hostCtx), evs)"
      "ctx_role hostCtx = RoleHost" for sid body hostCtx evs
    using add_host_no_ledger [OF that] .
  from h g a show ?thesis by blast
qed

theorem vote_charges_host_and_guest_witness:
  "getQueueItemWithSession exampleServices ''Q1'' = Inr (Some exampleItemWithSession)
   \<and> resolveSessionActor exampleConfig exampleServices hostRequest ''S1''
       = (Inr (Inr hostContext), [])
   \<and> ctx_role hostContext = RoleHost \<and> req_authUserId hostRequest = Some ''u0''
   \<and> storeVote exampleServices ''Q1'' (ctx_actor hostContext) 1 = Decide ''add'' (Inr ''added'')
   \<and> (\<exists>rest. ledgerCalls (snd (vote exampleCosts exampleConfig exampleServices hostRequest ''Q1'' 1))
         = SpendCredits ''u0'' 1 True # rest)
   \<and> ledgerCalls (snd (add exampleCosts exampleConfig exampleServices hostRequest ''S1''
        (Some exampleContent))) = []"
proof -
  have s: "item_sessionId exampleItemWithSession = ''S1''"
    and n: "''u0'' \<noteq> []" and c: "VOTE_REACTION_COST exampleCosts = 1"
    and t1: "(1::int) = 1 \<or> (1::int) = - 1"
    by (simp_all add: exampleItemWithSession_def exampleCosts_def)
  have a1: "getQueueItemWithSession exampleServices ''Q1'' = Inr (Some exampleItemWithSession)"
    and a2: "ctx_role hostContext = RoleHost \<and> req_authUserId hostRequest = Some ''u0''"
    and a3: "storeVote exampleServices ''Q1'' (ctx_actor hostContext) 1
              = Decide ''add'' (Inr ''added'')"
    and a4: "\<not> isl (spendCredits exampleServices ''u0'' (VOTE_REACTION_COST exampleCosts))"
    by (simp_all add: exampleServices_def hostContext_def hostRequest_def)
  have r1: "resolveSessionActor exampleConfig exampleServices hostRequest
              (item_sessionId exampleItemWithSession) = (Inr (Inr hostContext), [])"
    using host_resolved(1) s by simp
  note inst = vote_charges_host_and_guest [OF t1 a1 r1 a3 n, of exampleCosts]
  have v: "\<exists>rest. ledgerCalls (snd (vote exampleCosts exampleConfig exampleServices hostRequest
             ''Q1'' 1)) = SpendCredits ''u0'' 1 True # rest"
    using inst a2 a4 c by simp
  have a: "ledgerCalls (snd (add exampleCosts exampleConfig exampleServices hostRequest ''S1''
        (Some exampleContent))) = []"
    using inst host_resolved(1) a2 by blast
  from a1 host_resolved(1) a2 a3 v a show ?thesis by simp
qed

end
